theory Spec2Isabelle
  imports Main "HOL-Library.Sublist"
begin

section \<open>The image service (services/geminiService.ts)\<close>

subsection \<open>Values exchanged with the provider\<close>

datatype AspectRatio = R_1_1 | R_4_3 | R_3_4 | R_16_9 | R_9_16

text \<open>
  A request object handed to \<open>ai.models.generateImages\<close>. An image or mask part carries
  bytes that may be \<open>undefined\<close> (\<open>None\<close>), because the caller obtains them with
  \<open>getBase64FromDataUrl\<close>.
\<close>

record api_image =
  imageBytes :: "string option"
  mimeType :: string

record api_config =
  numberOfImages :: nat
  outputMimeType :: string
  cfg_aspectRatio :: "AspectRatio option"

record api_request =
  model :: string
  req_prompt :: string
  req_image :: "api_image option"
  req_mask :: "api_image option"
  config :: api_config

text \<open>
  The response: \<open>generatedImages\<close> may be absent; an entry may lack its \<open>image\<close>, and
  an image may lack its \<open>imageBytes\<close>. The source reads
  \<open>response.generatedImages[0].image.imageBytes\<close> without a check, so both absences
  are part of what it can meet.
\<close>

datatype image_value = Image (imageBytes_of: "string option")

datatype generated_image = GeneratedImage (image_of: "image_value option")

record api_response =
  generatedImages :: "generated_image list option"

text \<open>
  A thrown JavaScript value is either an \<open>Error\<close> with its message or some other value
  (\<open>error instanceof Error\<close> tells them apart). The promise returned by the provider
  call either resolves with a response or rejects with a thrown value.
\<close>

datatype thrown = Error (message: string) | NonError

datatype api_outcome = Resolves api_response | Rejects thrown

type_synonym sdk = "api_request \<Rightarrow> api_outcome"

text \<open>
  Reading a property of \<open>undefined\<close> throws a \<open>TypeError\<close>; its message is worded by
  the JavaScript engine, and the wording of V8 is taken here. A template literal renders
  \<open>undefined\<close> as the text "undefined".
\<close>

definition typeError_message :: string where
  "typeError_message = ''Cannot read properties of undefined (reading 'imageBytes')''"

definition template_text :: "string option \<Rightarrow> string" where
  "template_text v = (case v of None \<Rightarrow> ''undefined'' | Some t \<Rightarrow> t)"


subsection \<open>generateInfluencerImage\<close>

record GenerateImageOptions =
  opt_prompt :: string
  opt_aspectRatio :: AspectRatio
  opt_style :: string
  opt_age :: string
  opt_dominantColor :: string
  opt_ethnicity :: string

text \<open>Lines 27 to 36: the prompt is built by appending; a string is truthy when non-empty.\<close>

definition generateInfluencerImage_fullPrompt :: "GenerateImageOptions \<Rightarrow> string" where
  "generateInfluencerImage_fullPrompt options =
     (let fullPrompt = ''Create a '' @ opt_style options
            @ '', ultra-realistic, full-body portrait of a '' @ opt_ethnicity options
            @ '' AI influencer.'';
          fullPrompt = fullPrompt
            @ '' The style should be high-resolution, resembling a professional photograph.'';
          fullPrompt = fullPrompt @ '' Key details: '' @ opt_prompt options @ ''.'';
          fullPrompt =
            (if opt_age options \<noteq> []
             then fullPrompt @ '' The influencer should appear to be around ''
                    @ opt_age options @ '' years old.''
             else fullPrompt);
          fullPrompt =
            (if opt_dominantColor options \<noteq> []
             then fullPrompt @ '' The image's color palette should be dominated by shades of ''
                    @ opt_dominantColor options @ ''.''
             else fullPrompt)
      in fullPrompt
           @ '' Focus on realistic skin textures, intricate details, natural lighting, and a compelling pose.'')"

definition generateInfluencerImage_request :: "GenerateImageOptions \<Rightarrow> api_request" where
  "generateInfluencerImage_request options =
     \<lparr> model = ''imagen-3.0-generate-002'',
       req_prompt = generateInfluencerImage_fullPrompt options,
       req_image = None,
       req_mask = None,
       config = \<lparr> numberOfImages = 1, outputMimeType = ''image/jpeg'',
                  cfg_aspectRatio = Some (opt_aspectRatio options) \<rparr> \<rparr>"

text \<open>
  The body of each service function is a \<open>try\<close> block whose \<open>catch\<close> rethrows: an
  \<open>Error\<close> is wrapped with a prefix, any other value becomes a fixed message. The
  \<open>throw\<close> for an empty response and the \<open>TypeError\<close> for an entry without image
  arise inside the \<open>try\<close>, so they are wrapped as well.
  \<open>Inl\<close> is the value thrown to the caller, \<open>Inr\<close> the data URI returned.
\<close>

definition generateInfluencerImage :: "sdk \<Rightarrow> GenerateImageOptions \<Rightarrow> thrown + string" where
  "generateInfluencerImage ai options =
     (let attempt =
            (case ai (generateInfluencerImage_request options) of
               Rejects e \<Rightarrow> Inl e
             | Resolves response \<Rightarrow>
                 (case generatedImages response of
                    None \<Rightarrow> Inl (Error ''Image generation failed, no images were returned.'')
                  | Some [] \<Rightarrow> Inl (Error ''Image generation failed, no images were returned.'')
                  | Some (g # rest) \<Rightarrow>
                      (case image_of g of
                         None \<Rightarrow> Inl (Error typeError_message)
                       | Some img \<Rightarrow>
                           Inr (''data:image/jpeg;base64,''
                                  @ template_text (imageBytes_of img)))))
      in case attempt of
           Inr url \<Rightarrow> Inr url
         | Inl (Error m) \<Rightarrow> Inl (Error (''Failed to generate influencer image: '' @ m))
         | Inl NonError \<Rightarrow> Inl (Error ''An unknown error occurred during image generation.''))"

subsection \<open>inpaintImage\<close>

record InpaintImageOptions =
  inp_prompt :: string
  inp_image :: "string option"
  inp_mask :: "string option"

definition inpaintImage_request :: "InpaintImageOptions \<Rightarrow> api_request" where
  "inpaintImage_request options =
     \<lparr> model = ''imagen-3.0-generate-002'',
       req_prompt = inp_prompt options,
       req_image = Some \<lparr> imageBytes = inp_image options, mimeType = ''image/jpeg'' \<rparr>,
       req_mask = Some \<lparr> imageBytes = inp_mask options, mimeType = ''image/png'' \<rparr>,
       config = \<lparr> numberOfImages = 1, outputMimeType = ''image/jpeg'',
                  cfg_aspectRatio = None \<rparr> \<rparr>"

definition inpaintImage :: "sdk \<Rightarrow> InpaintImageOptions \<Rightarrow> thrown + string" where
  "inpaintImage ai options =
     (let attempt =
            (case ai (inpaintImage_request options) of
               Rejects e \<Rightarrow> Inl e
             | Resolves response \<Rightarrow>
                 (case generatedImages response of
                    None \<Rightarrow> Inl (Error ''Inpainting failed, no images were returned.'')
                  | Some [] \<Rightarrow> Inl (Error ''Inpainting failed, no images were returned.'')
                  | Some (g # rest) \<Rightarrow>
                      (case image_of g of
                         None \<Rightarrow> Inl (Error typeError_message)
                       | Some img \<Rightarrow>
                           Inr (''data:image/jpeg;base64,''
                                  @ template_text (imageBytes_of img)))))
      in case attempt of
           Inr url \<Rightarrow> Inr url
         | Inl (Error m) \<Rightarrow> Inl (Error (''Failed to inpaint image: '' @ m))
         | Inl NonError \<Rightarrow> Inl (Error ''An unknown error occurred during image inpainting.''))"

subsection \<open>generateConsistentCharacter\<close>

record GenerateConsistentCharacterOptions =
  cc_prompt :: string
  cc_image :: "string option"
  cc_aspectRatio :: AspectRatio

definition generateConsistentCharacter_fullPrompt :: "string \<Rightarrow> string" where
  "generateConsistentCharacter_fullPrompt p =
     ''Using the provided image as a reference for the character's face and appearance, create a new scene. The character must remain consistent. New scene description: ''
       @ [CHR 0x22] @ p @ [CHR 0x22]"

definition generateConsistentCharacter_request ::
    "GenerateConsistentCharacterOptions \<Rightarrow> api_request" where
  "generateConsistentCharacter_request options =
     \<lparr> model = ''imagen-3.0-generate-002'',
       req_prompt = generateConsistentCharacter_fullPrompt (cc_prompt options),
       req_image = Some \<lparr> imageBytes = cc_image options, mimeType = ''image/jpeg'' \<rparr>,
       req_mask = None,
       config = \<lparr> numberOfImages = 1, outputMimeType = ''image/jpeg'',
                  cfg_aspectRatio = Some (cc_aspectRatio options) \<rparr> \<rparr>"

definition generateConsistentCharacter ::
    "sdk \<Rightarrow> GenerateConsistentCharacterOptions \<Rightarrow> thrown + string" where
  "generateConsistentCharacter ai options =
     (let attempt =
            (case ai (generateConsistentCharacter_request options) of
               Rejects e \<Rightarrow> Inl e
             | Resolves response \<Rightarrow>
                 (case generatedImages response of
                    None \<Rightarrow> Inl (Error
                      ''Consistent character generation failed, no images were returned.'')
                  | Some [] \<Rightarrow> Inl (Error
                      ''Consistent character generation failed, no images were returned.'')
                  | Some (g # rest) \<Rightarrow>
                      (case image_of g of
                         None \<Rightarrow> Inl (Error typeError_message)
                       | Some img \<Rightarrow>
                           Inr (''data:image/jpeg;base64,''
                                  @ template_text (imageBytes_of img)))))
      in case attempt of
           Inr url \<Rightarrow> Inr url
         | Inl (Error m) \<Rightarrow> Inl (Error (''Failed to generate consistent character: '' @ m))
         | Inl NonError \<Rightarrow>
             Inl (Error ''An unknown error occurred during consistent character generation.''))"

subsection \<open>addTextToImage\<close>

record AddTextToImageOptions =
  at_prompt :: string
  at_image :: "string option"
  at_language :: string

definition addTextToImage_fullPrompt :: "string \<Rightarrow> string \<Rightarrow> string" where
  "addTextToImage_fullPrompt p language =
     ''Seamlessly and realistically integrate the following text onto the image, matching the existing art style, lighting, perspective, and textures. The text should appear as a natural part of the scene, not just an overlay.''
       @ [CHR 0x0A] @ ''Text to add: '' @ [CHR 0x22] @ p @ [CHR 0x22]
       @ [CHR 0x0A] @ ''The text is in '' @ language @ '' language.''"

definition addTextToImage_request :: "AddTextToImageOptions \<Rightarrow> api_request" where
  "addTextToImage_request options =
     \<lparr> model = ''imagen-3.0-generate-002'',
       req_prompt = addTextToImage_fullPrompt (at_prompt options) (at_language options),
       req_image = Some \<lparr> imageBytes = at_image options, mimeType = ''image/jpeg'' \<rparr>,
       req_mask = None,
       config = \<lparr> numberOfImages = 1, outputMimeType = ''image/jpeg'',
                  cfg_aspectRatio = None \<rparr> \<rparr>"

definition addTextToImage :: "sdk \<Rightarrow> AddTextToImageOptions \<Rightarrow> thrown + string" where
  "addTextToImage ai options =
     (let attempt =
            (case ai (addTextToImage_request options) of
               Rejects e \<Rightarrow> Inl e
             | Resolves response \<Rightarrow>
                 (case generatedImages response of
                    None \<Rightarrow> Inl (Error ''Adding text failed, no images were returned.'')
                  | Some [] \<Rightarrow> Inl (Error ''Adding text failed, no images were returned.'')
                  | Some (g # rest) \<Rightarrow>
                      (case image_of g of
                         None \<Rightarrow> Inl (Error typeError_message)
                       | Some img \<Rightarrow>
                           Inr (''data:image/jpeg;base64,''
                                  @ template_text (imageBytes_of img)))))
      in case attempt of
           Inr url \<Rightarrow> Inr url
         | Inl (Error m) \<Rightarrow> Inl (Error (''Failed to add text to image: '' @ m))
         | Inl NonError \<Rightarrow>
             Inl (Error ''An unknown error occurred while adding text to the image.''))"

subsection \<open>Reading the initial prompt clause by clause\<close>

text \<open>
  The pieces of the initial prompt, named after the template text of lines 27 to 36: the
  opening up to the key details, the two conditional sentences, and the closing sentence.
\<close>

definition prompt_opening :: "GenerateImageOptions \<Rightarrow> string" where
  "prompt_opening options =
     ''Create a '' @ opt_style options
       @ '', ultra-realistic, full-body portrait of a '' @ opt_ethnicity options
       @ '' AI influencer.''
       @ '' The style should be high-resolution, resembling a professional photograph.''
       @ '' Key details: '' @ opt_prompt options @ ''.''"

definition age_clause :: "string \<Rightarrow> string" where
  "age_clause a = '' The influencer should appear to be around '' @ a @ '' years old.''"

definition color_clause :: "string \<Rightarrow> string" where
  "color_clause c =
     '' The image's color palette should be dominated by shades of '' @ c @ ''.''"

definition prompt_closing :: string where
  "prompt_closing =
     '' Focus on realistic skin textures, intricate details, natural lighting, and a compelling pose.''"

text \<open>
  The words with which each conditional sentence introduces its field.
\<close>

definition age_clause_wording :: string where
  "age_clause_wording = ''The influencer should appear to be around''"

definition color_clause_wording :: string where
  "color_clause_wording = ''The image's color palette should be dominated by shades of''"


section \<open>The application component (App)\<close>

subsection \<open>State\<close>

datatype AppMode = Mode_generate | Mode_edit

datatype EditModeTab = Tab_inpaint | Tab_newScene | Tab_addText

text \<open>
  The mask surface. A canvas has its two dimensions and a bitmap of RGBA pixels, read at
  column \<open>i\<close> and row \<open>j\<close>; only positions inside the dimensions belong to the raster.
  The 2D context keeps the stroke settings. \<open>canvasRef\<close> holds the canvas element that
  is mounted at the moment, \<open>contextRef\<close> the context that the sizing effect
  (\<open>setCanvasDimensions\<close>) last obtained.
\<close>

type_synonym pixel = "nat \<times> nat \<times> nat \<times> nat"

definition transparent :: pixel where
  "transparent = (0, 0, 0, 0)"

record canvas =
  width :: nat
  height :: nat
  bitmap :: "nat \<Rightarrow> nat \<Rightarrow> pixel"

record context2d =
  lineCap :: string
  strokeStyle :: string
  lineWidth :: int

text \<open>
  One field per \<open>useState\<close> cell and per ref of the component, with the source's names.
  \<open>requests\<close> is not a field of the source: it records, in order, every request
  handed to the provider, so that "no request is issued" can be stated.
\<close>

record app_state =
  mode :: AppMode
  isLoading :: bool
  error :: "string option"
  imageUrl :: "string option"
  prompt :: string
  aspectRatio :: AspectRatio
  style :: string
  age :: string
  dominantColor :: string
  ethnicity :: string
  editModeTab :: EditModeTab
  inpaintPrompt :: string
  newScenePrompt :: string
  textContent :: string
  textLanguage :: string
  brushSize :: int
  isDrawing :: bool
  canvasRef :: "canvas option"
  contextRef :: "context2d option"
  requests :: "api_request list"

definition initial_state :: app_state where
  "initial_state =
     \<lparr> mode = Mode_generate, isLoading = False, error = None, imageUrl = None,
       prompt = ''A stylish female influencer with vibrant pink hair, standing in a futuristic neon-lit city square at night.'',
       aspectRatio = R_1_1, style = ''Photorealistic'', age = ''25'',
       dominantColor = ''Neon Pink'', ethnicity = ''Caucasian'',
       editModeTab = Tab_inpaint, inpaintPrompt = [], newScenePrompt = [],
       textContent = [], textLanguage = ''English'', brushSize = 40, isDrawing = False,
       canvasRef = None, contextRef = None, requests = [] \<rparr>"

text \<open>
  What the component takes from its surroundings: the provider call
  \<open>ai.models.generateImages\<close> and the browser's \<open>canvas.toDataURL(type)\<close>.
\<close>

record env =
  generateImages :: sdk
  toDataURL :: "canvas \<Rightarrow> string \<Rightarrow> string"

subsection \<open>Helpers\<close>

text \<open>
  \<open>dataUrl.split(',')[1]\<close>: \<open>split\<close> cuts at every comma and always returns at
  least one piece; reading index 1 of a shorter array gives \<open>undefined\<close>.
\<close>

fun split_on :: "char \<Rightarrow> string \<Rightarrow> string list" where
  "split_on c [] = [[]]"
| "split_on c (x # xs) =
     (if x = c then [] # split_on c xs
      else (case split_on c xs of
              [] \<Rightarrow> [[x]]
            | p # ps \<Rightarrow> (x # p) # ps))"

definition index_opt :: "'a list \<Rightarrow> nat \<Rightarrow> 'a option" where
  "index_opt xs i = (if i < length xs then Some (xs ! i) else None)"

definition getBase64FromDataUrl :: "string \<Rightarrow> string option" where
  "getBase64FromDataUrl dataUrl = index_opt (split_on (CHR '','') dataUrl) 1"

text \<open>\<open>e instanceof Error ? e.message : 'An unexpected error occurred.'\<close>\<close>

definition errorMessage :: "thrown \<Rightarrow> string" where
  "errorMessage e = (case e of Error m \<Rightarrow> m | NonError \<Rightarrow> ''An unexpected error occurred.'')"

subsection \<open>The mask surface\<close>

text \<open>
  \<open>context.clearRect(x, y, w, h)\<close> makes every pixel of the rectangle transparent
  black; no transform is ever set on the context. \<open>clearCanvas\<close> clears through the
  context in \<open>contextRef\<close>. When that context was obtained from the element in
  \<open>canvasRef\<close>, this clears the mounted raster. When the element has been mounted
  anew since, the context belongs to the element that was replaced, and the mounted one is
  blank already, because strokes are painted through \<open>contextRef\<close> only; the raster
  of \<open>canvasRef\<close> is then the same before and after, as it is below.
\<close>

definition clearRect :: "nat \<Rightarrow> nat \<Rightarrow> nat \<Rightarrow> nat \<Rightarrow> canvas \<Rightarrow> canvas" where
  "clearRect x y w h c =
     c\<lparr> bitmap := (\<lambda>i j. if x \<le> i \<and> i < x + w \<and> y \<le> j \<and> j < y + h
                          then transparent else bitmap c i j) \<rparr>"

definition clearCanvas :: "app_state \<Rightarrow> app_state" where
  "clearCanvas s =
     (case canvasRef s of
        None \<Rightarrow> s
      | Some cv \<Rightarrow>
          (case contextRef s of
             None \<Rightarrow> s
           | Some context \<Rightarrow>
               s\<lparr> canvasRef := Some (clearRect 0 0 (width cv) (height cv) cv) \<rparr>))"

text \<open>A raster is empty when every pixel inside its dimensions is transparent.\<close>

definition empty_raster :: "canvas \<Rightarrow> bool" where
  "empty_raster c = (\<forall>i < width c. \<forall>j < height c. bitmap c i j = transparent)"

subsection \<open>Rendering\<close>

text \<open>
  \<open>ImageDisplay\<close> is declared inside \<open>App\<close> and used as an element of its output, so
  every render of \<open>App\<close> presents a component of a new type, and the image and canvas
  elements below it are unmounted and created again. \<open>App\<close> renders again when a batch
  of state updates has changed some \<open>useState\<close> cell; updates that leave every cell as
  it was do not render. After a render \<open>canvasRef\<close> holds a new element, blank and of
  the default size of 300 by 150, when the canvas is in the output (an image is shown,
  the mode is \<open>edit\<close> and the Inpaint tab is active), and null otherwise;
  \<open>contextRef\<close> is not touched by rendering. The effect that sizes a canvas once the
  image has loaded, and on a window resize, assigns the width and height of that canvas,
  which leaves it blank as well; it belongs to what the \<open>Surface\<close> event below stands
  for.
\<close>

definition cells ::
    "app_state \<Rightarrow>
       AppMode \<times> bool \<times> string option \<times> string option \<times> string \<times> AspectRatio \<times> string
         \<times> string \<times> string \<times> string \<times> EditModeTab \<times> string \<times> string \<times> string \<times> string
         \<times> int \<times> bool" where
  "cells s =
     (mode s, isLoading s, error s, imageUrl s, prompt s, aspectRatio s, style s, age s,
      dominantColor s, ethnicity s, editModeTab s, inpaintPrompt s, newScenePrompt s,
      textContent s, textLanguage s, brushSize s, isDrawing s)"

definition canvas_rendered :: "app_state \<Rightarrow> bool" where
  "canvas_rendered s =
     ((case imageUrl s of None \<Rightarrow> False | Some url \<Rightarrow> url \<noteq> [])
      \<and> mode s = Mode_edit \<and> editModeTab s = Tab_inpaint)"

definition fresh_canvas :: canvas where
  "fresh_canvas = \<lparr> width = 300, height = 150, bitmap = (\<lambda>i j. transparent) \<rparr>"

definition rerender :: "app_state \<Rightarrow> app_state" where
  "rerender s =
     s\<lparr> canvasRef := (if canvas_rendered s then Some fresh_canvas else None) \<rparr>"

text \<open>
  \<open>commit s s'\<close>: the component was rendered in state \<open>s\<close>, and a batch of updates
  has produced \<open>s'\<close>.
\<close>

definition commit :: "app_state \<Rightarrow> app_state \<Rightarrow> app_state" where
  "commit s s' = (if cells s' = cells s then s' else rerender s')"

subsection \<open>The handlers that call the provider\<close>

text \<open>
  Each handler is asynchronous. Its first part runs up to the \<open>await\<close>: the guard, the
  two state updates, and the call that hands the request to the provider; the component
  then renders. Its second part runs when the call has settled, with the value the service
  returned (\<open>Inr\<close>) or threw (\<open>Inl\<close>): the \<open>try\<close> or \<open>catch\<close> branch, then
  \<open>finally\<close>, and the component renders again. The first part yields \<open>None\<close> where
  the guard returns early, before any update. The handler as a whole is the first part
  followed by the second.
\<close>

definition generation_options :: "app_state \<Rightarrow> GenerateImageOptions" where
  "generation_options s =
     \<lparr> opt_prompt = prompt s, opt_aspectRatio = aspectRatio s, opt_style = style s,
       opt_age = age s, opt_dominantColor = dominantColor s,
       opt_ethnicity = ethnicity s \<rparr>"

definition handleGenerate_start :: "app_state \<Rightarrow> (GenerateImageOptions \<times> app_state) option" where
  "handleGenerate_start s =
     (let s1 = s\<lparr> isLoading := True \<rparr>;
          s2 = s1\<lparr> error := None \<rparr>;
          options = generation_options s
      in Some (options,
               commit s
                 (s2\<lparr> requests := requests s2 @ [generateInfluencerImage_request options] \<rparr>)))"

definition handleGenerate_settle :: "thrown + string \<Rightarrow> app_state \<Rightarrow> app_state" where
  "handleGenerate_settle result s =
     (let s1 = (case result of
                  Inr resultUrl \<Rightarrow> (s\<lparr> imageUrl := Some resultUrl \<rparr>)\<lparr> mode := Mode_edit \<rparr>
                | Inl e \<Rightarrow> s\<lparr> error := Some (errorMessage e) \<rparr>)
      in commit s (s1\<lparr> isLoading := False \<rparr>))"

definition handleGenerate :: "env \<Rightarrow> app_state \<Rightarrow> app_state" where
  "handleGenerate ev s =
     (case handleGenerate_start s of
        None \<Rightarrow> s
      | Some (options, s1) \<Rightarrow>
          handleGenerate_settle (generateInfluencerImage (generateImages ev) options) s1)"

definition handleApplyInpaint_start ::
    "env \<Rightarrow> app_state \<Rightarrow> (InpaintImageOptions \<times> app_state) option" where
  "handleApplyInpaint_start ev s =
     (case imageUrl s of
        None \<Rightarrow> None
      | Some url \<Rightarrow>
          if url = [] then None
          else (case canvasRef s of
                  None \<Rightarrow> None
                | Some cv \<Rightarrow>
                    (let s1 = s\<lparr> isLoading := True \<rparr>;
                         s2 = s1\<lparr> error := None \<rparr>;
                         maskDataUrl = toDataURL ev cv ''image/png'';
                         maskBase64 = getBase64FromDataUrl maskDataUrl;
                         imageBase64 = getBase64FromDataUrl url;
                         options = \<lparr> inp_prompt = inpaintPrompt s, inp_image = imageBase64,
                                     inp_mask = maskBase64 \<rparr>
                     in Some (options,
                              commit s
                                (s2\<lparr> requests :=
                                       requests s2 @ [inpaintImage_request options] \<rparr>)))))"

definition handleApplyInpaint_settle :: "thrown + string \<Rightarrow> app_state \<Rightarrow> app_state" where
  "handleApplyInpaint_settle result s =
     (let s1 = (case result of
                  Inr resultUrl \<Rightarrow>
                    (clearCanvas (s\<lparr> imageUrl := Some resultUrl \<rparr>))\<lparr> inpaintPrompt := [] \<rparr>
                | Inl e \<Rightarrow> s\<lparr> error := Some (errorMessage e) \<rparr>)
      in commit s (s1\<lparr> isLoading := False \<rparr>))"

definition handleApplyInpaint :: "env \<Rightarrow> app_state \<Rightarrow> app_state" where
  "handleApplyInpaint ev s =
     (case handleApplyInpaint_start ev s of
        None \<Rightarrow> s
      | Some (options, s1) \<Rightarrow>
          handleApplyInpaint_settle (inpaintImage (generateImages ev) options) s1)"

definition handleGenerateNewScene_start ::
    "app_state \<Rightarrow> (GenerateConsistentCharacterOptions \<times> app_state) option" where
  "handleGenerateNewScene_start s =
     (case imageUrl s of
        None \<Rightarrow> None
      | Some url \<Rightarrow>
          if url = [] then None
          else (let s1 = s\<lparr> isLoading := True \<rparr>;
                    s2 = s1\<lparr> error := None \<rparr>;
                    imageBase64 = getBase64FromDataUrl url;
                    options = \<lparr> cc_prompt = newScenePrompt s, cc_image = imageBase64,
                                cc_aspectRatio = aspectRatio s \<rparr>
                in Some (options,
                         commit s
                           (s2\<lparr> requests :=
                                  requests s2
                                    @ [generateConsistentCharacter_request options] \<rparr>))))"

definition handleGenerateNewScene_settle :: "thrown + string \<Rightarrow> app_state \<Rightarrow> app_state" where
  "handleGenerateNewScene_settle result s =
     (let s1 = (case result of
                  Inr resultUrl \<Rightarrow> (s\<lparr> imageUrl := Some resultUrl \<rparr>)\<lparr> newScenePrompt := [] \<rparr>
                | Inl e \<Rightarrow> s\<lparr> error := Some (errorMessage e) \<rparr>)
      in commit s (s1\<lparr> isLoading := False \<rparr>))"

definition handleGenerateNewScene :: "env \<Rightarrow> app_state \<Rightarrow> app_state" where
  "handleGenerateNewScene ev s =
     (case handleGenerateNewScene_start s of
        None \<Rightarrow> s
      | Some (options, s1) \<Rightarrow>
          handleGenerateNewScene_settle
            (generateConsistentCharacter (generateImages ev) options) s1)"

definition handleApplyText_start ::
    "app_state \<Rightarrow> (AddTextToImageOptions \<times> app_state) option" where
  "handleApplyText_start s =
     (case imageUrl s of
        None \<Rightarrow> None
      | Some url \<Rightarrow>
          if url = [] \<or> textContent s = [] then None
          else (let s1 = s\<lparr> isLoading := True \<rparr>;
                    s2 = s1\<lparr> error := None \<rparr>;
                    imageBase64 = getBase64FromDataUrl url;
                    options = \<lparr> at_prompt = textContent s, at_image = imageBase64,
                                at_language = textLanguage s \<rparr>
                in Some (options,
                         commit s
                           (s2\<lparr> requests :=
                                  requests s2 @ [addTextToImage_request options] \<rparr>))))"

definition handleApplyText_settle :: "thrown + string \<Rightarrow> app_state \<Rightarrow> app_state" where
  "handleApplyText_settle result s =
     (let s1 = (case result of
                  Inr resultUrl \<Rightarrow> (s\<lparr> imageUrl := Some resultUrl \<rparr>)\<lparr> textContent := [] \<rparr>
                | Inl e \<Rightarrow> s\<lparr> error := Some (errorMessage e) \<rparr>)
      in commit s (s1\<lparr> isLoading := False \<rparr>))"

definition handleApplyText :: "env \<Rightarrow> app_state \<Rightarrow> app_state" where
  "handleApplyText ev s =
     (case handleApplyText_start s of
        None \<Rightarrow> s
      | Some (options, s1) \<Rightarrow>
          handleApplyText_settle (addTextToImage (generateImages ev) options) s1)"

subsection \<open>Start over\<close>

definition handleStartOver :: "app_state \<Rightarrow> app_state" where
  "handleStartOver s =
     commit s
       (s\<lparr> mode := Mode_generate, imageUrl := None, error := None, isLoading := False,
           inpaintPrompt := [], newScenePrompt := [], textContent := [],
           textLanguage := ''English'', editModeTab := Tab_inpaint \<rparr>)"

subsection \<open>What the user can do, and the states that can be reached\<close>

text \<open>
  The rendered controls decide which events exist in a state: \<open>GenerationControls\<close> is
  rendered when \<open>mode\<close> is \<open>generate\<close> and \<open>EditingControls\<close> otherwise; inside the
  latter the tab buttons and Start Over are always there, the controls of a tab only when
  that tab is active, and a submit button is disabled while loading or while its text is
  empty. Editing a field updates its cell, and the component renders. A click runs the
  first part of its handler; the call it started settles later, possibly after other events. \<open>Settled\<close> events may happen at any moment and with any
  result, and \<open>Surface\<close> stands for whatever happens to the mask surface (mounting,
  resizing, drawing): both are more permissive than the application, which only makes the
  set of reachable states larger.
\<close>

datatype operation = Op_generate | Op_inpaint | Op_newScene | Op_addText

datatype event =
    SetPrompt string
  | SetStyle string
  | SetAspectRatio AspectRatio
  | SetAge string
  | SetDominantColor string
  | SetEthnicity string
  | ClickGenerate
  | SetEditModeTab EditModeTab
  | SetInpaintPrompt string
  | SetBrushSize int
  | ClickApplyInpaint
  | ClickClearCanvas
  | SetNewScenePrompt string
  | ClickGenerateNewScene
  | SetTextContent string
  | SetTextLanguage string
  | ClickApplyText
  | ClickStartOver
  | Settled operation "thrown + string"
  | Surface "canvas option" "context2d option" bool

definition guarded :: "bool \<Rightarrow> app_state \<Rightarrow> app_state option" where
  "guarded b s = (if b then Some s else None)"

fun ui_step :: "env \<Rightarrow> event \<Rightarrow> app_state \<Rightarrow> app_state option" where
  "ui_step ev (SetPrompt v) s =
     guarded (mode s = Mode_generate) (commit s (s\<lparr> prompt := v \<rparr>))"
| "ui_step ev (SetStyle v) s =
     guarded (mode s = Mode_generate) (commit s (s\<lparr> style := v \<rparr>))"
| "ui_step ev (SetAspectRatio v) s =
     guarded (mode s = Mode_generate) (commit s (s\<lparr> aspectRatio := v \<rparr>))"
| "ui_step ev (SetAge v) s =
     guarded (mode s = Mode_generate) (commit s (s\<lparr> age := v \<rparr>))"
| "ui_step ev (SetDominantColor v) s =
     guarded (mode s = Mode_generate) (commit s (s\<lparr> dominantColor := v \<rparr>))"
| "ui_step ev (SetEthnicity v) s =
     guarded (mode s = Mode_generate) (commit s (s\<lparr> ethnicity := v \<rparr>))"
| "ui_step ev ClickGenerate s =
     (if mode s = Mode_generate \<and> \<not> isLoading s
      then map_option snd (handleGenerate_start s) else None)"
| "ui_step ev (SetEditModeTab t) s =
     guarded (mode s \<noteq> Mode_generate) (commit s (s\<lparr> editModeTab := t \<rparr>))"
| "ui_step ev (SetInpaintPrompt v) s =
     guarded (mode s \<noteq> Mode_generate \<and> editModeTab s = Tab_inpaint)
       (commit s (s\<lparr> inpaintPrompt := v \<rparr>))"
| "ui_step ev (SetBrushSize n) s =
     guarded (mode s \<noteq> Mode_generate \<and> editModeTab s = Tab_inpaint)
       (commit s (s\<lparr> brushSize := n \<rparr>))"
| "ui_step ev ClickApplyInpaint s =
     (if mode s \<noteq> Mode_generate \<and> editModeTab s = Tab_inpaint
         \<and> \<not> (isLoading s \<or> inpaintPrompt s = [])
      then Some (case handleApplyInpaint_start ev s of None \<Rightarrow> s | Some (options, s1) \<Rightarrow> s1)
      else None)"
| "ui_step ev ClickClearCanvas s =
     guarded (mode s \<noteq> Mode_generate \<and> editModeTab s = Tab_inpaint) (clearCanvas s)"
| "ui_step ev (SetNewScenePrompt v) s =
     guarded (mode s \<noteq> Mode_generate \<and> editModeTab s = Tab_newScene)
       (commit s (s\<lparr> newScenePrompt := v \<rparr>))"
| "ui_step ev ClickGenerateNewScene s =
     (if mode s \<noteq> Mode_generate \<and> editModeTab s = Tab_newScene
         \<and> \<not> (isLoading s \<or> newScenePrompt s = [])
      then Some (case handleGenerateNewScene_start s of None \<Rightarrow> s | Some (options, s1) \<Rightarrow> s1)
      else None)"
| "ui_step ev (SetTextContent v) s =
     guarded (mode s \<noteq> Mode_generate \<and> editModeTab s = Tab_addText)
       (commit s (s\<lparr> textContent := v \<rparr>))"
| "ui_step ev (SetTextLanguage v) s =
     guarded (mode s \<noteq> Mode_generate \<and> editModeTab s = Tab_addText)
       (commit s (s\<lparr> textLanguage := v \<rparr>))"
| "ui_step ev ClickApplyText s =
     (if mode s \<noteq> Mode_generate \<and> editModeTab s = Tab_addText
         \<and> \<not> (isLoading s \<or> textContent s = [])
      then Some (case handleApplyText_start s of None \<Rightarrow> s | Some (options, s1) \<Rightarrow> s1)
      else None)"
| "ui_step ev ClickStartOver s = guarded (mode s \<noteq> Mode_generate) (handleStartOver s)"
| "ui_step ev (Settled Op_generate result) s = Some (handleGenerate_settle result s)"
| "ui_step ev (Settled Op_inpaint result) s = Some (handleApplyInpaint_settle result s)"
| "ui_step ev (Settled Op_newScene result) s = Some (handleGenerateNewScene_settle result s)"
| "ui_step ev (Settled Op_addText result) s = Some (handleApplyText_settle result s)"
| "ui_step ev (Surface cv context drawing) s =
     Some (s\<lparr> canvasRef := cv, contextRef := context, isDrawing := drawing \<rparr>)"

inductive reachable :: "app_state \<Rightarrow> bool" where
  reachable_initial: "reachable initial_state"
| reachable_step: "reachable s \<Longrightarrow> ui_step ev e s = Some s' \<Longrightarrow> reachable s'"

section \<open>Vocabulary of the properties\<close>

text \<open>
  The form inputs of the component, which are the values its form controls hold: the six
  persona fields, the active tab, the three edit texts, the text language and the brush
  size. The mask surface is not a form control; what becomes of it is the subject of
  \<open>mask_discarded\<close>.
\<close>

definition same_form_inputs :: "app_state \<Rightarrow> app_state \<Rightarrow> bool" where
  "same_form_inputs s s' =
     (prompt s' = prompt s \<and> aspectRatio s' = aspectRatio s \<and> style s' = style s
      \<and> age s' = age s \<and> dominantColor s' = dominantColor s \<and> ethnicity s' = ethnicity s
      \<and> editModeTab s' = editModeTab s \<and> inpaintPrompt s' = inpaintPrompt s
      \<and> newScenePrompt s' = newScenePrompt s \<and> textContent s' = textContent s
      \<and> textLanguage s' = textLanguage s \<and> brushSize s' = brushSize s)"


text \<open>
  No mask is left: the canvas is not mounted, or the mounted raster is empty.
\<close>

definition mask_discarded :: "app_state \<Rightarrow> bool" where
  "mask_discarded s = (case canvasRef s of None \<Rightarrow> True | Some cv \<Rightarrow> empty_raster cv)"

section \<open>Concrete inputs\<close>

text \<open>The scenario of section 8 of the specification, and a variant with every field set.\<close>

definition scenario_options :: GenerateImageOptions where
  "scenario_options =
     \<lparr> opt_prompt = ''D'', opt_aspectRatio = R_1_1, opt_style = ''Anime'',
       opt_age = [], opt_dominantColor = [], opt_ethnicity = ''Asian'' \<rparr>"

text \<open>
  Options with an empty age whose description carries the wording of an age clause.
\<close>

definition injected_options :: GenerateImageOptions where
  "injected_options =
     \<lparr> opt_prompt = ''x. The influencer should appear to be around 5 years old'',
       opt_aspectRatio = R_1_1, opt_style = ''Anime'', opt_age = [],
       opt_dominantColor = [], opt_ethnicity = ''Asian'' \<rparr>"

definition full_options :: GenerateImageOptions where
  "full_options =
     \<lparr> opt_prompt = ''D'', opt_aspectRatio = R_16_9, opt_style = ''Anime'',
       opt_age = ''30'', opt_dominantColor = ''Teal'', opt_ethnicity = ''Asian'' \<rparr>"

text \<open>
  An editing session: an image is shown, the Inpaint tab is active, and a two by two mask
  has one white pixel.
\<close>

definition mask_canvas :: canvas where
  "mask_canvas =
     \<lparr> width = 2, height = 2,
       bitmap = (\<lambda>i j. if i = 0 \<and> j = 0 then (255, 255, 255, 255) else transparent) \<rparr>"

definition brush_context :: context2d where
  "brush_context = \<lparr> lineCap = ''round'', strokeStyle = ''white'', lineWidth = 40 \<rparr>"

definition editing_state :: app_state where
  "editing_state =
     initial_state\<lparr> mode := Mode_edit, imageUrl := Some ''data:image/jpeg;base64,QUJD'',
                    inpaintPrompt := ''add sunglasses'', newScenePrompt := ''at the beach'',
                    textContent := ''Hello'', canvasRef := Some mask_canvas,
                    contextRef := Some brush_context \<rparr>"

text \<open>Options for the three editing services, as the editing session builds them.\<close>

definition inpaint_options :: InpaintImageOptions where
  "inpaint_options =
     \<lparr> inp_prompt = ''add sunglasses'', inp_image = Some ''QUJD'',
       inp_mask = Some ''TUFTSw=='' \<rparr>"

definition scene_options :: GenerateConsistentCharacterOptions where
  "scene_options =
     \<lparr> cc_prompt = ''at the beach'', cc_image = Some ''QUJD'', cc_aspectRatio = R_1_1 \<rparr>"

definition text_options :: AddTextToImageOptions where
  "text_options = \<lparr> at_prompt = ''Hello'', at_image = Some ''QUJD'', at_language = ''English'' \<rparr>"


definition env_no_image :: env where
  "env_no_image =
     \<lparr> generateImages = (\<lambda>request. Resolves \<lparr> generatedImages = Some [] \<rparr>),
       toDataURL = (\<lambda>cv t. ''data:image/png;base64,TUFTSw=='') \<rparr>"

definition env_one_image :: env where
  "env_one_image =
     \<lparr> generateImages =
         (\<lambda>request. Resolves
            \<lparr> generatedImages = Some [GeneratedImage (Some (Image (Some ''TkVX'')))] \<rparr>),
       toDataURL = (\<lambda>cv t. ''data:image/png;base64,TUFTSw=='') \<rparr>"

definition env_image_without_bytes :: env where
  "env_image_without_bytes =
     \<lparr> generateImages =
         (\<lambda>request. Resolves \<lparr> generatedImages = Some [GeneratedImage (Some (Image None))] \<rparr>),
       toDataURL = (\<lambda>cv t. ''data:image/png;base64,TUFTSw=='') \<rparr>"

definition env_entry_without_image :: env where
  "env_entry_without_image =
     \<lparr> generateImages =
         (\<lambda>request. Resolves \<lparr> generatedImages = Some [GeneratedImage None] \<rparr>),
       toDataURL = (\<lambda>cv t. ''data:image/png;base64,TUFTSw=='') \<rparr>"

section \<open>The initial prompt\<close>

lemma fullPrompt_clauses:
  "generateInfluencerImage_fullPrompt options =
     prompt_opening options
       @ (if opt_age options \<noteq> [] then age_clause (opt_age options) else [])
       @ (if opt_dominantColor options \<noteq> []
          then color_clause (opt_dominantColor options) else [])
       @ prompt_closing"
  by (simp add: generateInfluencerImage_fullPrompt_def prompt_opening_def age_clause_def
      color_clause_def prompt_closing_def Let_def)

lemma sublist_opening_fullPrompt:
  "sublist (prompt_opening options) (generateInfluencerImage_fullPrompt options)"
  by (simp add: fullPrompt_clauses)

lemma sublist_in_opening:
  "sublist (opt_style options) (prompt_opening options)"
  "sublist (opt_ethnicity options) (prompt_opening options)"
  "sublist (opt_prompt options) (prompt_opening options)"
proof -
  show "sublist (opt_style options) (prompt_opening options)"
    unfolding prompt_opening_def by (rule sublist_appendI)
  have "prompt_opening options =
      (''Create a '' @ opt_style options @ '', ultra-realistic, full-body portrait of a '')
        @ opt_ethnicity options
        @ ('' AI influencer.''
            @ '' The style should be high-resolution, resembling a professional photograph.''
            @ '' Key details: '' @ opt_prompt options @ ''.'')"
    by (simp add: prompt_opening_def)
  then show "sublist (opt_ethnicity options) (prompt_opening options)"
    by (metis sublist_appendI)
  have "prompt_opening options =
      (''Create a '' @ opt_style options @ '', ultra-realistic, full-body portrait of a ''
        @ opt_ethnicity options @ '' AI influencer.''
        @ '' The style should be high-resolution, resembling a professional photograph.''
        @ '' Key details: '')
        @ opt_prompt options @ ''.''"
    by (simp add: prompt_opening_def)
  then show "sublist (opt_prompt options) (prompt_opening options)"
    by (metis sublist_appendI)
qed

lemma sublist_age_clause:
  "opt_age options \<noteq> [] \<Longrightarrow>
     sublist (age_clause (opt_age options)) (generateInfluencerImage_fullPrompt options)"
  by (simp add: fullPrompt_clauses)

lemma sublist_color_clause:
  assumes "opt_dominantColor options \<noteq> []"
  shows "sublist (color_clause (opt_dominantColor options))
           (generateInfluencerImage_fullPrompt options)"
proof -
  have "generateInfluencerImage_fullPrompt options =
      (prompt_opening options
        @ (if opt_age options \<noteq> [] then age_clause (opt_age options) else []))
        @ color_clause (opt_dominantColor options) @ prompt_closing"
    using assms by (simp add: fullPrompt_clauses)
  then show ?thesis by (metis sublist_appendI)
qed

lemma scenario_fullPrompt:
  "generateInfluencerImage_fullPrompt scenario_options =
     ''Create a Anime, ultra-realistic, full-body portrait of a Asian AI influencer. The style should be high-resolution, resembling a professional photograph. Key details: D. Focus on realistic skin textures, intricate details, natural lighting, and a compelling pose.''"
  by (simp add: generateInfluencerImage_fullPrompt_def scenario_options_def)

lemma scenario_contents:
  "sublist ''Anime'' (generateInfluencerImage_fullPrompt scenario_options)"
  "sublist ''Asian'' (generateInfluencerImage_fullPrompt scenario_options)"
  "sublist ''D'' (generateInfluencerImage_fullPrompt scenario_options)"
  "\<not> sublist '' The influencer should appear to be around ''
       (generateInfluencerImage_fullPrompt scenario_options)"
  "\<not> sublist '' The image's color palette should be dominated by shades of ''
       (generateInfluencerImage_fullPrompt scenario_options)"
  unfolding scenario_fullPrompt by code_simp+




lemma sublist_Cons_other:
  "c \<noteq> x \<Longrightarrow> sublist (c # m) (x # v) = sublist (c # m) v"
  by (simp add: sublist_Cons_right)

lemma sublist_Cons_same:
  "sublist (c # m) (c # v) = (prefix m v \<or> sublist (c # m) v)"
  by (simp add: sublist_Cons_right)

text \<open>
  A text \<open>u\<close> that does not contain \<open>M\<close>, followed by two characters that \<open>M\<close>
  neither ends with nor contains in this order, cannot hold the beginning of an occurrence
  of \<open>M\<close>.
\<close>

lemma sublist_past_user_text:
  assumes "\<not> sublist M u" and "last M \<noteq> x" and "\<not> sublist [x, y] M"
  shows "sublist M (u @ x # y # g) = sublist M (x # y # g)"
proof
  assume "sublist M (x # y # g)"
  then show "sublist M (u @ x # y # g)"
    by (simp add: sublist_append)
next
  assume "sublist M (u @ x # y # g)"
  then consider "sublist M u" | "sublist M (x # y # g)"
    | xs1 xs2 where "M = xs1 @ xs2" "suffix xs1 u" "prefix xs2 (x # y # g)"
    by (auto simp: sublist_append)
  then show "sublist M (x # y # g)"
  proof cases
    case 1
    with assms(1) show ?thesis by simp
  next
    case 2
    then show ?thesis .
  next
    case 3
    show ?thesis
    proof (cases xs2)
      case Nil
      with 3 have "suffix M u" by simp
      then have "sublist M u" by (rule suffix_imp_sublist)
      with assms(1) show ?thesis by simp
    next
      case (Cons a t)
      note xs2 = this
      with 3 have a: "a = x" by simp
      show ?thesis
      proof (cases t)
        case Nil
        with 3 xs2 a have "last M = x" by simp
        with assms(2) show ?thesis by simp
      next
        case (Cons b t')
        with 3 xs2 a have "b = y" by simp
        with 3 xs2 a Cons have "M = xs1 @ [x, y] @ t'" by simp
        then have "sublist [x, y] M" by (metis sublist_appendI)
        with assms(3) show ?thesis by simp
      qed
    qed
  qed
qed

lemma no_age_wording:
  assumes "opt_age options = []"
    and "\<not> sublist age_clause_wording (opt_style options)"
    and "\<not> sublist age_clause_wording (opt_ethnicity options)"
    and "\<not> sublist age_clause_wording (opt_prompt options)"
    and "\<not> sublist age_clause_wording (opt_dominantColor options)"
  shows "\<not> sublist age_clause_wording (generateInfluencerImage_fullPrompt options)"
  using assms unfolding age_clause_wording_def
  by (simp add: fullPrompt_clauses prompt_opening_def color_clause_def prompt_closing_def
      sublist_past_user_text sublist_Cons_other sublist_Cons_same)

lemma no_color_wording:
  assumes "opt_dominantColor options = []"
    and "\<not> sublist color_clause_wording (opt_style options)"
    and "\<not> sublist color_clause_wording (opt_ethnicity options)"
    and "\<not> sublist color_clause_wording (opt_prompt options)"
    and "\<not> sublist color_clause_wording (opt_age options)"
  shows "\<not> sublist color_clause_wording (generateInfluencerImage_fullPrompt options)"
  using assms unfolding color_clause_wording_def
  by (simp add: fullPrompt_clauses prompt_opening_def age_clause_def prompt_closing_def
      sublist_past_user_text sublist_Cons_other sublist_Cons_same)

lemma wording_in_clause:
  "sublist age_clause_wording (age_clause a)"
  "sublist color_clause_wording (color_clause c)"
proof -
  have "age_clause a = '' '' @ age_clause_wording @ ('' '' @ a @ '' years old.'')"
    by (simp add: age_clause_def age_clause_wording_def)
  then show "sublist age_clause_wording (age_clause a)"
    by (metis sublist_appendI)
  have "color_clause c = '' '' @ color_clause_wording @ ('' '' @ c @ ''.'')"
    by (simp add: color_clause_def color_clause_wording_def)
  then show "sublist color_clause_wording (color_clause c)"
    by (metis sublist_appendI)
qed

lemma no_age_clause:
  assumes "opt_age options = []"
    and "\<not> sublist age_clause_wording (opt_style options)"
    and "\<not> sublist age_clause_wording (opt_ethnicity options)"
    and "\<not> sublist age_clause_wording (opt_prompt options)"
    and "\<not> sublist age_clause_wording (opt_dominantColor options)"
  shows "\<not> sublist (age_clause a) (generateInfluencerImage_fullPrompt options)"
proof
  assume "sublist (age_clause a) (generateInfluencerImage_fullPrompt options)"
  with wording_in_clause(1) [of a]
  have "sublist age_clause_wording (generateInfluencerImage_fullPrompt options)"
    by (rule sublist_order.order_trans)
  with no_age_wording [OF assms] show False by simp
qed

lemma no_color_clause:
  assumes "opt_dominantColor options = []"
    and "\<not> sublist color_clause_wording (opt_style options)"
    and "\<not> sublist color_clause_wording (opt_ethnicity options)"
    and "\<not> sublist color_clause_wording (opt_prompt options)"
    and "\<not> sublist color_clause_wording (opt_age options)"
  shows "\<not> sublist (color_clause c) (generateInfluencerImage_fullPrompt options)"
proof
  assume "sublist (color_clause c) (generateInfluencerImage_fullPrompt options)"
  with wording_in_clause(2) [of c]
  have "sublist color_clause_wording (generateInfluencerImage_fullPrompt options)"
    by (rule sublist_order.order_trans)
  with no_color_wording [OF assms] show False by simp
qed

text \<open>
  C4, as stated: the composed prompt contains the age clause exactly when the age is
  non-empty. The description is interpolated as it is, so it can bring the clause with it:
  with an empty age and a description that ends in the wording of an age clause, the
  prompt contains the age clause for the age 5.
\<close>

theorem description_can_carry_age_clause:
  "opt_age injected_options = []
   \<and> sublist (age_clause ''5'') (generateInfluencerImage_fullPrompt injected_options)"
proof -
  have p: "generateInfluencerImage_fullPrompt injected_options =
      ''Create a Anime, ultra-realistic, full-body portrait of a Asian AI influencer. The style should be high-resolution, resembling a professional photograph. Key details: x. The influencer should appear to be around 5 years old. Focus on realistic skin textures, intricate details, natural lighting, and a compelling pose.''"
    by (simp add: generateInfluencerImage_fullPrompt_def injected_options_def)
  have a: "age_clause ''5'' = '' The influencer should appear to be around 5 years old.''"
    by (simp add: age_clause_def)
  have "sublist (age_clause ''5'') (generateInfluencerImage_fullPrompt injected_options)"
    unfolding p a by code_simp
  then show ?thesis by (simp add: injected_options_def)
qed

text \<open>
  C4, amended: the composed prompt contains the description, the style and the ethnicity
  as given; it contains the age clause whenever the age is non-empty and the
  dominant-color clause whenever the dominant color is non-empty; when the age is empty it
  contains no age clause, and not even the words that introduce one, unless the style,
  the ethnicity, the description or the dominant color itself contains those words, and
  likewise for an empty dominant color; in the scenario of the specification the prompt
  contains "Anime", "Asian" and "D" and neither clause.
\<close>

theorem initial_prompt_contents:
  "sublist (opt_prompt options) (generateInfluencerImage_fullPrompt options)
   \<and> sublist (opt_style options) (generateInfluencerImage_fullPrompt options)
   \<and> sublist (opt_ethnicity options) (generateInfluencerImage_fullPrompt options)
   \<and> (opt_age options \<noteq> [] \<longrightarrow>
        sublist (age_clause (opt_age options)) (generateInfluencerImage_fullPrompt options))
   \<and> (opt_dominantColor options \<noteq> [] \<longrightarrow>
        sublist (color_clause (opt_dominantColor options))
          (generateInfluencerImage_fullPrompt options))
   \<and> (opt_age options = []
        \<and> \<not> sublist age_clause_wording (opt_style options)
        \<and> \<not> sublist age_clause_wording (opt_ethnicity options)
        \<and> \<not> sublist age_clause_wording (opt_prompt options)
        \<and> \<not> sublist age_clause_wording (opt_dominantColor options) \<longrightarrow>
        \<not> sublist age_clause_wording (generateInfluencerImage_fullPrompt options)
        \<and> \<not> sublist (age_clause a) (generateInfluencerImage_fullPrompt options))
   \<and> (opt_dominantColor options = []
        \<and> \<not> sublist color_clause_wording (opt_style options)
        \<and> \<not> sublist color_clause_wording (opt_ethnicity options)
        \<and> \<not> sublist color_clause_wording (opt_prompt options)
        \<and> \<not> sublist color_clause_wording (opt_age options) \<longrightarrow>
        \<not> sublist color_clause_wording (generateInfluencerImage_fullPrompt options)
        \<and> \<not> sublist (color_clause c) (generateInfluencerImage_fullPrompt options))
   \<and> sublist ''Anime'' (generateInfluencerImage_fullPrompt scenario_options)
   \<and> sublist ''Asian'' (generateInfluencerImage_fullPrompt scenario_options)
   \<and> sublist ''D'' (generateInfluencerImage_fullPrompt scenario_options)
   \<and> \<not> sublist '' The influencer should appear to be around ''
          (generateInfluencerImage_fullPrompt scenario_options)
   \<and> \<not> sublist '' The image's color palette should be dominated by shades of ''
          (generateInfluencerImage_fullPrompt scenario_options)"
proof -
  have inside: "sublist x (generateInfluencerImage_fullPrompt options)"
    if "sublist x (prompt_opening options)" for x
    using that sublist_opening_fullPrompt [of options] by (rule sublist_order.order_trans)
  show ?thesis
    using inside [OF sublist_in_opening(1)] inside [OF sublist_in_opening(2)]
      inside [OF sublist_in_opening(3)]
      sublist_age_clause [of options] sublist_color_clause [of options]
      no_age_wording [of options] no_color_wording [of options]
      no_age_clause [of options a] no_color_clause [of options c] scenario_contents
    by blast
qed

theorem initial_prompt_contents_witness:
  "opt_age full_options \<noteq> [] \<and> opt_dominantColor full_options \<noteq> []
   \<and> sublist '' The influencer should appear to be around 30 years old.''
        (generateInfluencerImage_fullPrompt full_options)
   \<and> sublist '' The image's color palette should be dominated by shades of Teal.''
        (generateInfluencerImage_fullPrompt full_options)
   \<and> opt_age scenario_options = [] \<and> opt_dominantColor scenario_options = []
   \<and> \<not> sublist age_clause_wording (opt_style scenario_options)
   \<and> \<not> sublist age_clause_wording (opt_ethnicity scenario_options)
   \<and> \<not> sublist age_clause_wording (opt_prompt scenario_options)
   \<and> \<not> sublist color_clause_wording (opt_style scenario_options)
   \<and> \<not> sublist color_clause_wording (opt_ethnicity scenario_options)
   \<and> \<not> sublist color_clause_wording (opt_prompt scenario_options)
   \<and> \<not> sublist age_clause_wording (generateInfluencerImage_fullPrompt scenario_options)
   \<and> \<not> sublist (age_clause ''30'') (generateInfluencerImage_fullPrompt scenario_options)
   \<and> \<not> sublist color_clause_wording (generateInfluencerImage_fullPrompt scenario_options)
   \<and> \<not> sublist (color_clause ''Teal'')
          (generateInfluencerImage_fullPrompt scenario_options)"
proof -
  have a: "opt_age full_options \<noteq> []" and c: "opt_dominantColor full_options \<noteq> []"
    by (simp_all add: full_options_def)
  have e1: "age_clause (opt_age full_options) =
      '' The influencer should appear to be around 30 years old.''"
    by (simp add: age_clause_def full_options_def)
  have e2: "color_clause (opt_dominantColor full_options) =
      '' The image's color palette should be dominated by shades of Teal.''"
    by (simp add: color_clause_def full_options_def)
  have s1: "sublist (age_clause (opt_age full_options))
      (generateInfluencerImage_fullPrompt full_options)"
    using initial_prompt_contents [of full_options] a by blast
  have s2: "sublist (color_clause (opt_dominantColor full_options))
      (generateInfluencerImage_fullPrompt full_options)"
    using initial_prompt_contents [of full_options] c by blast
  have h: "opt_age scenario_options = []" "opt_dominantColor scenario_options = []"
    by (simp_all add: scenario_options_def)
  have ha: "\<not> sublist age_clause_wording (opt_style scenario_options)"
    "\<not> sublist age_clause_wording (opt_ethnicity scenario_options)"
    "\<not> sublist age_clause_wording (opt_prompt scenario_options)"
    "\<not> sublist age_clause_wording (opt_dominantColor scenario_options)"
    by code_simp+
  have hc: "\<not> sublist color_clause_wording (opt_style scenario_options)"
    "\<not> sublist color_clause_wording (opt_ethnicity scenario_options)"
    "\<not> sublist color_clause_wording (opt_prompt scenario_options)"
    "\<not> sublist color_clause_wording (opt_age scenario_options)"
    by code_simp+
  have n1: "\<not> sublist age_clause_wording (generateInfluencerImage_fullPrompt scenario_options)
      \<and> \<not> sublist (age_clause ''30'') (generateInfluencerImage_fullPrompt scenario_options)"
    using initial_prompt_contents [of scenario_options "''30''"] h ha by blast
  have n2: "\<not> sublist color_clause_wording (generateInfluencerImage_fullPrompt scenario_options)
      \<and> \<not> sublist (color_clause ''Teal'')
          (generateInfluencerImage_fullPrompt scenario_options)"
    using initial_prompt_contents [of scenario_options _ "''Teal''"] h hc by blast
  show ?thesis
    using a c s1 [unfolded e1] s2 [unfolded e2] h ha hc n1 n2 by blast
qed

section \<open>Rendering keeps the cells\<close>

lemma commit_cell:
  "mode (commit s s') = mode s'" "isLoading (commit s s') = isLoading s'"
  "error (commit s s') = error s'" "imageUrl (commit s s') = imageUrl s'"
  "prompt (commit s s') = prompt s'" "aspectRatio (commit s s') = aspectRatio s'"
  "style (commit s s') = style s'" "age (commit s s') = age s'"
  "dominantColor (commit s s') = dominantColor s'" "ethnicity (commit s s') = ethnicity s'"
  "editModeTab (commit s s') = editModeTab s'" "inpaintPrompt (commit s s') = inpaintPrompt s'"
  "newScenePrompt (commit s s') = newScenePrompt s'"
  "textContent (commit s s') = textContent s'" "textLanguage (commit s s') = textLanguage s'"
  "brushSize (commit s s') = brushSize s'" "isDrawing (commit s s') = isDrawing s'"
  "contextRef (commit s s') = contextRef s'" "requests (commit s s') = requests s'"
  by (simp_all add: commit_def rerender_def)

lemma clearCanvas_cell:
  "mode (clearCanvas s) = mode s" "isLoading (clearCanvas s) = isLoading s"
  "error (clearCanvas s) = error s" "imageUrl (clearCanvas s) = imageUrl s"
  "editModeTab (clearCanvas s) = editModeTab s"
  by (simp_all add: clearCanvas_def split: option.splits)

lemma empty_fresh_canvas: "empty_raster fresh_canvas"
  by (simp add: empty_raster_def fresh_canvas_def)

lemma mask_discarded_commit:
  assumes "isLoading s = True" "isLoading s' = False"
  shows "mask_discarded (commit s s')"
  using assms
  by (simp add: commit_def cells_def rerender_def mask_discarded_def empty_fresh_canvas)

section \<open>Start over\<close>

text \<open>
  C6: from every state, Start Over gives a state in generate mode with no image, no error
  and the loading flag down, and doing it twice is the same as doing it once.
\<close>

theorem startOver_resets_and_is_idempotent:
  "mode (handleStartOver s) = Mode_generate
   \<and> imageUrl (handleStartOver s) = None
   \<and> error (handleStartOver s) = None
   \<and> isLoading (handleStartOver s) = False
   \<and> handleStartOver (handleStartOver s) = handleStartOver s"
  by (simp add: handleStartOver_def commit_def rerender_def cells_def canvas_rendered_def)

text \<open>
  C7: Start Over keeps the six persona fields and discards the image, the inpaint prompt,
  the new-scene prompt, the text content, the text language (back to English) and the
  active tab (back to Inpaint).
\<close>

theorem startOver_keeps_persona_fields:
  "prompt (handleStartOver s) = prompt s
   \<and> aspectRatio (handleStartOver s) = aspectRatio s
   \<and> style (handleStartOver s) = style s
   \<and> age (handleStartOver s) = age s
   \<and> dominantColor (handleStartOver s) = dominantColor s
   \<and> ethnicity (handleStartOver s) = ethnicity s
   \<and> imageUrl (handleStartOver s) = None
   \<and> inpaintPrompt (handleStartOver s) = []
   \<and> newScenePrompt (handleStartOver s) = []
   \<and> textContent (handleStartOver s) = []
   \<and> textLanguage (handleStartOver s) = ''English''
   \<and> editModeTab (handleStartOver s) = Tab_inpaint"
  by (simp add: handleStartOver_def commit_cell)

section \<open>What the service functions return\<close>

lemma errorMessage_Error: "errorMessage (Error m) = m"
  by (simp add: errorMessage_def)





section \<open>Failed operations\<close>


lemma handleGenerate_start_frame:
  assumes "handleGenerate_start s = Some (options, s1)"
  shows "imageUrl s1 = imageUrl s \<and> mode s1 = mode s \<and> same_form_inputs s s1"
  using assms
  by (auto simp: handleGenerate_start_def Let_def same_form_inputs_def commit_cell)

lemma handleApplyInpaint_start_frame:
  assumes "handleApplyInpaint_start ev s = Some (options, s1)"
  shows "imageUrl s1 = imageUrl s \<and> mode s1 = mode s \<and> same_form_inputs s s1"
  using assms
  by (auto simp: handleApplyInpaint_start_def Let_def same_form_inputs_def commit_cell
      split: option.splits if_splits)

lemma handleGenerateNewScene_start_frame:
  assumes "handleGenerateNewScene_start s = Some (options, s1)"
  shows "imageUrl s1 = imageUrl s \<and> mode s1 = mode s \<and> same_form_inputs s s1"
  using assms
  by (auto simp: handleGenerateNewScene_start_def Let_def same_form_inputs_def commit_cell
      split: option.splits if_splits)

lemma handleApplyText_start_frame:
  assumes "handleApplyText_start s = Some (options, s1)"
  shows "imageUrl s1 = imageUrl s \<and> mode s1 = mode s \<and> same_form_inputs s s1"
  using assms
  by (auto simp: handleApplyText_start_def Let_def same_form_inputs_def commit_cell
      split: option.splits if_splits)

lemma settle_thrown:
  "handleGenerate_settle (Inl (Error m)) s = commit s (s\<lparr> error := Some m, isLoading := False \<rparr>)"
  "handleApplyInpaint_settle (Inl (Error m)) s = commit s (s\<lparr> error := Some m, isLoading := False \<rparr>)"
  "handleGenerateNewScene_settle (Inl (Error m)) s = commit s (s\<lparr> error := Some m, isLoading := False \<rparr>)"
  "handleApplyText_settle (Inl (Error m)) s = commit s (s\<lparr> error := Some m, isLoading := False \<rparr>)"
  by (simp_all add: handleGenerate_settle_def handleApplyInpaint_settle_def
      handleGenerateNewScene_settle_def handleApplyText_settle_def errorMessage_Error)






lemma editing_starts:
  "\<exists>go s1. handleGenerate_start editing_state = Some (go, s1)"
  "\<exists>io s2. handleApplyInpaint_start ev editing_state = Some (io, s2)"
  "\<exists>co s3. handleGenerateNewScene_start editing_state = Some (co, s3)"
  "\<exists>ao s4. handleApplyText_start editing_state = Some (ao, s4)"
  by (simp_all add: handleGenerate_start_def handleApplyInpaint_start_def
      handleGenerateNewScene_start_def handleApplyText_start_def editing_state_def
      initial_state_def Let_def)



section \<open>Responses with and without images\<close>

lemma generateInfluencerImage_first_image:
  assumes "ai (generateInfluencerImage_request options) = Resolves r"
    and "generatedImages r = Some (g # rest)" and "image_of g = Some img"
  shows "generateInfluencerImage ai options
           = Inr (''data:image/jpeg;base64,'' @ template_text (imageBytes_of img))"
  using assms by (simp add: generateInfluencerImage_def)

lemma inpaintImage_first_image:
  assumes "ai (inpaintImage_request options) = Resolves r"
    and "generatedImages r = Some (g # rest)" and "image_of g = Some img"
  shows "inpaintImage ai options
           = Inr (''data:image/jpeg;base64,'' @ template_text (imageBytes_of img))"
  using assms by (simp add: inpaintImage_def)

lemma generateConsistentCharacter_first_image:
  assumes "ai (generateConsistentCharacter_request options) = Resolves r"
    and "generatedImages r = Some (g # rest)" and "image_of g = Some img"
  shows "generateConsistentCharacter ai options
           = Inr (''data:image/jpeg;base64,'' @ template_text (imageBytes_of img))"
  using assms by (simp add: generateConsistentCharacter_def)

lemma addTextToImage_first_image:
  assumes "ai (addTextToImage_request options) = Resolves r"
    and "generatedImages r = Some (g # rest)" and "image_of g = Some img"
  shows "addTextToImage ai options
           = Inr (''data:image/jpeg;base64,'' @ template_text (imageBytes_of img))"
  using assms by (simp add: addTextToImage_def)

lemma generateInfluencerImage_zero_images:
  assumes "ai (generateInfluencerImage_request options) = Resolves r"
    and "generatedImages r = None \<or> generatedImages r = Some []"
  shows "generateInfluencerImage ai options = Inl (Error
     ''Failed to generate influencer image: Image generation failed, no images were returned.'')"
  using assms by (auto simp: generateInfluencerImage_def)

lemma inpaintImage_zero_images:
  assumes "ai (inpaintImage_request options) = Resolves r"
    and "generatedImages r = None \<or> generatedImages r = Some []"
  shows "inpaintImage ai options = Inl (Error
     ''Failed to inpaint image: Inpainting failed, no images were returned.'')"
  using assms by (auto simp: inpaintImage_def)

lemma generateConsistentCharacter_zero_images:
  assumes "ai (generateConsistentCharacter_request options) = Resolves r"
    and "generatedImages r = None \<or> generatedImages r = Some []"
  shows "generateConsistentCharacter ai options = Inl (Error
     ''Failed to generate consistent character: Consistent character generation failed, no images were returned.'')"
  using assms by (auto simp: generateConsistentCharacter_def)

lemma addTextToImage_zero_images:
  assumes "ai (addTextToImage_request options) = Resolves r"
    and "generatedImages r = None \<or> generatedImages r = Some []"
  shows "addTextToImage ai options = Inl (Error
     ''Failed to add text to image: Adding text failed, no images were returned.'')"
  using assms by (auto simp: addTextToImage_def)

section \<open>Clearing the mask\<close>

lemma clearRect_whole:
  "empty_raster (clearRect 0 0 (width cv) (height cv) cv)"
  "width (clearRect 0 0 (width cv) (height cv) cv) = width cv"
  "height (clearRect 0 0 (width cv) (height cv) cv) = height cv"
  by (simp_all add: empty_raster_def clearRect_def)

text \<open>
  C9: whatever the mask raster holds, \<open>clearCanvas\<close> on a mounted mask surface (canvas
  and drawing context present) leaves a raster of the same dimensions in which every pixel
  is transparent.
\<close>

theorem clearCanvas_empties_raster:
  "canvasRef s = Some cv \<and> contextRef s = Some context \<longrightarrow>
     (case canvasRef (clearCanvas s) of
        None \<Rightarrow> False
      | Some cv' \<Rightarrow> empty_raster cv' \<and> width cv' = width cv \<and> height cv' = height cv)"
  by (simp add: clearCanvas_def clearRect_whole)

lemma mask_canvas_painted: "\<not> empty_raster mask_canvas"
proof
  assume "empty_raster mask_canvas"
  moreover have "0 < width mask_canvas" "0 < height mask_canvas"
    by (simp_all add: mask_canvas_def)
  ultimately have "bitmap mask_canvas 0 0 = transparent"
    unfolding empty_raster_def by blast
  then show False by (simp add: mask_canvas_def transparent_def)
qed

theorem clearCanvas_empties_raster_witness:
  "canvasRef editing_state = Some mask_canvas \<and> contextRef editing_state = Some brush_context
   \<and> \<not> empty_raster mask_canvas
   \<and> (case canvasRef (clearCanvas editing_state) of
        None \<Rightarrow> False
      | Some cv' \<Rightarrow> empty_raster cv' \<and> width cv' = 2 \<and> height cv' = 2)"
proof -
  have h: "canvasRef editing_state = Some mask_canvas \<and> contextRef editing_state = Some brush_context"
    by (simp add: editing_state_def)
  have dims: "width mask_canvas = 2" "height mask_canvas = 2"
    by (simp_all add: mask_canvas_def)
  show ?thesis
    using h mask_canvas_painted clearCanvas_empties_raster [of editing_state mask_canvas brush_context]
    by (simp add: dims split: option.splits)
qed

section \<open>Handlers that return early\<close>

text \<open>
  C10: with no current image, applying an inpaint, generating a new scene and adding text
  each return before the \<open>await\<close> and leave the whole state as it was, the list of
  requests included; adding text does the same when the text content is empty.
\<close>

theorem guarded_handlers_are_noops:
  "(imageUrl s = None \<longrightarrow>
      handleApplyInpaint_start ev s = None \<and> handleApplyInpaint ev s = s
      \<and> handleGenerateNewScene_start s = None \<and> handleGenerateNewScene ev s = s
      \<and> handleApplyText_start s = None \<and> handleApplyText ev s = s)
   \<and> (textContent s = [] \<longrightarrow> handleApplyText_start s = None \<and> handleApplyText ev s = s)"
  by (simp add: handleApplyInpaint_def handleApplyInpaint_start_def
      handleGenerateNewScene_def handleGenerateNewScene_start_def
      handleApplyText_def handleApplyText_start_def split: option.splits)

theorem guarded_handlers_are_noops_witness:
  "imageUrl initial_state = None \<and> textContent initial_state = []
   \<and> handleApplyInpaint env_one_image initial_state = initial_state
   \<and> handleGenerateNewScene env_one_image initial_state = initial_state
   \<and> handleApplyText env_one_image initial_state = initial_state
   \<and> requests (handleApplyText env_one_image initial_state) = []"
proof -
  have h: "imageUrl initial_state = None" "textContent initial_state = []"
    "requests initial_state = []"
    by (simp_all add: initial_state_def)
  show ?thesis
    using h guarded_handlers_are_noops [of initial_state env_one_image] by simp
qed

section \<open>A successful generation\<close>

text \<open>In every reachable state in generate mode the Inpaint tab is the active one.\<close>

lemma reachable_generate_tab:
  "reachable s \<Longrightarrow> mode s = Mode_generate \<Longrightarrow> editModeTab s = Tab_inpaint"
proof (induction rule: reachable.induct)
  case reachable_initial
  show ?case by (simp add: initial_state_def)
next
  case (reachable_step s ev e s')
  show ?case
  proof (cases e)
    case (Settled op result)
    with reachable_step show ?thesis
      by (cases op; cases result)
        (auto simp: handleGenerate_settle_def handleApplyInpaint_settle_def
          handleGenerateNewScene_settle_def handleApplyText_settle_def commit_cell
          clearCanvas_cell)
  qed (use reachable_step in \<open>auto simp: guarded_def handleGenerate_start_def
        handleApplyInpaint_start_def handleGenerateNewScene_start_def
        handleApplyText_start_def handleStartOver_def clearCanvas_cell commit_cell Let_def
        split: if_splits option.splits\<close>)
qed

text \<open>
  C5: from every reachable state in generate mode with no image, a generate call that
  succeeds, which is one whose response has a first entry with an image, ends in edit mode
  with the Inpaint tab active, the returned image stored as a data URI, and the loading
  flag down.
\<close>

theorem successful_generate_enters_editing:
  "reachable s \<and> mode s = Mode_generate \<and> imageUrl s = None
     \<and> generateImages ev (generateInfluencerImage_request (generation_options s)) = Resolves r
     \<and> generatedImages r = Some (g # rest) \<and> image_of g = Some img
   \<longrightarrow> mode (handleGenerate ev s) = Mode_edit
       \<and> editModeTab (handleGenerate ev s) = Tab_inpaint
       \<and> imageUrl (handleGenerate ev s)
           = Some (''data:image/jpeg;base64,'' @ template_text (imageBytes_of img))
       \<and> isLoading (handleGenerate ev s) = False"
proof (intro impI, elim conjE)
  assume r: "reachable s" and m: "mode s = Mode_generate"
    and ai: "generateImages ev (generateInfluencerImage_request (generation_options s)) = Resolves r"
    and g: "generatedImages r = Some (g # rest)" and img: "image_of g = Some img"
  have tab: "editModeTab s = Tab_inpaint"
    using reachable_generate_tab [OF r m] .
  have res: "generateInfluencerImage (generateImages ev) (generation_options s)
      = Inr (''data:image/jpeg;base64,'' @ template_text (imageBytes_of img))"
    using generateInfluencerImage_first_image [of "generateImages ev"] ai g img by blast
  show "mode (handleGenerate ev s) = Mode_edit
       \<and> editModeTab (handleGenerate ev s) = Tab_inpaint
       \<and> imageUrl (handleGenerate ev s)
           = Some (''data:image/jpeg;base64,'' @ template_text (imageBytes_of img))
       \<and> isLoading (handleGenerate ev s) = False"
    by (simp add: handleGenerate_def handleGenerate_start_def Let_def res
        handleGenerate_settle_def tab commit_cell)
qed

theorem successful_generate_enters_editing_witness:
  "reachable initial_state \<and> mode initial_state = Mode_generate \<and> imageUrl initial_state = None
   \<and> mode (handleGenerate env_one_image initial_state) = Mode_edit
   \<and> editModeTab (handleGenerate env_one_image initial_state) = Tab_inpaint
   \<and> imageUrl (handleGenerate env_one_image initial_state) = Some ''data:image/jpeg;base64,TkVX''
   \<and> isLoading (handleGenerate env_one_image initial_state) = False"
proof -
  let ?g = "GeneratedImage (Some (Image (Some ''TkVX'')))"
  let ?r1 = "\<lparr> generatedImages = Some [?g] \<rparr>"
  have h: "reachable initial_state" "mode initial_state = Mode_generate"
    "imageUrl initial_state = None"
    by (rule reachable_initial) (simp_all add: initial_state_def)
  have ai: "generateImages env_one_image
        (generateInfluencerImage_request (generation_options initial_state)) = Resolves ?r1"
    by (simp add: env_one_image_def)
  have g: "generatedImages ?r1 = Some (?g # [])"
    by simp
  have img: "image_of ?g = Some (Image (Some ''TkVX''))"
    by simp
  show ?thesis
    using h ai g img
      successful_generate_enters_editing [of initial_state env_one_image ?r1 ?g "[]"
        "Image (Some ''TkVX'')"]
    by (simp add: template_text_def)
qed

section \<open>Responses without images, seen from the handlers\<close>

lemma handleGenerate_zero_images:
  assumes "handleGenerate_start s = Some (options, s1)"
    and "generateImages ev (generateInfluencerImage_request options) = Resolves r"
    and "generatedImages r = None \<or> generatedImages r = Some []"
  shows "error (handleGenerate ev s) = Some
      ''Failed to generate influencer image: Image generation failed, no images were returned.''
    \<and> imageUrl (handleGenerate ev s) = imageUrl s"
proof -
  have "handleGenerate ev s = commit s1 (s1\<lparr> error := Some
      ''Failed to generate influencer image: Image generation failed, no images were returned.'',
      isLoading := False \<rparr>)"
    using generateInfluencerImage_zero_images [of "generateImages ev" options r] assms
    by (simp add: handleGenerate_def settle_thrown)
  then show ?thesis
    using handleGenerate_start_frame [OF assms(1)] by (simp add: commit_cell)
qed

lemma handleApplyInpaint_zero_images:
  assumes "handleApplyInpaint_start ev s = Some (options, s1)"
    and "generateImages ev (inpaintImage_request options) = Resolves r"
    and "generatedImages r = None \<or> generatedImages r = Some []"
  shows "error (handleApplyInpaint ev s) = Some
      ''Failed to inpaint image: Inpainting failed, no images were returned.''
    \<and> imageUrl (handleApplyInpaint ev s) = imageUrl s"
proof -
  have "handleApplyInpaint ev s = commit s1 (s1\<lparr> error := Some
      ''Failed to inpaint image: Inpainting failed, no images were returned.'',
      isLoading := False \<rparr>)"
    using inpaintImage_zero_images [of "generateImages ev" options r] assms
    by (simp add: handleApplyInpaint_def settle_thrown)
  then show ?thesis
    using handleApplyInpaint_start_frame [OF assms(1)] by (simp add: commit_cell)
qed

lemma handleGenerateNewScene_zero_images:
  assumes "handleGenerateNewScene_start s = Some (options, s1)"
    and "generateImages ev (generateConsistentCharacter_request options) = Resolves r"
    and "generatedImages r = None \<or> generatedImages r = Some []"
  shows "error (handleGenerateNewScene ev s) = Some
      ''Failed to generate consistent character: Consistent character generation failed, no images were returned.''
    \<and> imageUrl (handleGenerateNewScene ev s) = imageUrl s"
proof -
  have "handleGenerateNewScene ev s = commit s1 (s1\<lparr> error := Some
      ''Failed to generate consistent character: Consistent character generation failed, no images were returned.'',
      isLoading := False \<rparr>)"
    using generateConsistentCharacter_zero_images [of "generateImages ev" options r] assms
    by (simp add: handleGenerateNewScene_def settle_thrown)
  then show ?thesis
    using handleGenerateNewScene_start_frame [OF assms(1)] by (simp add: commit_cell)
qed

lemma handleApplyText_zero_images:
  assumes "handleApplyText_start s = Some (options, s1)"
    and "generateImages ev (addTextToImage_request options) = Resolves r"
    and "generatedImages r = None \<or> generatedImages r = Some []"
  shows "error (handleApplyText ev s) = Some
      ''Failed to add text to image: Adding text failed, no images were returned.''
    \<and> imageUrl (handleApplyText ev s) = imageUrl s"
proof -
  have "handleApplyText ev s = commit s1 (s1\<lparr> error := Some
      ''Failed to add text to image: Adding text failed, no images were returned.'',
      isLoading := False \<rparr>)"
    using addTextToImage_zero_images [of "generateImages ev" options r] assms
    by (simp add: handleApplyText_def settle_thrown)
  then show ?thesis
    using handleApplyText_start_frame [OF assms(1)] by (simp add: commit_cell)
qed

text \<open>
  C8, as stated: whenever the response has at least one generated image, the first one is
  returned as a data URI with its bytes. A response whose only image has no bytes yields
  a data URI that ends in "undefined", which the handler stores as the image. A response
  whose only entry has no image makes the service function throw, although the response
  is not empty.
\<close>

theorem first_image_without_bytes_or_image:
  "generateInfluencerImage (generateImages env_image_without_bytes) scenario_options
     = Inr ''data:image/jpeg;base64,undefined''
   \<and> imageUrl (handleGenerate env_image_without_bytes initial_state)
       = Some ''data:image/jpeg;base64,undefined''
   \<and> generateInfluencerImage (generateImages env_entry_without_image) scenario_options
       = Inl (Error (''Failed to generate influencer image: '' @ typeError_message))
   \<and> imageUrl (handleGenerate env_entry_without_image initial_state) = None"
  by (simp add: generateInfluencerImage_def env_image_without_bytes_def
      env_entry_without_image_def template_text_def handleGenerate_def
      handleGenerate_start_def handleGenerate_settle_def Let_def commit_cell
      initial_state_def)

text \<open>
  C8, amended: for each of the four operations and every response of the provider, a
  response with no generated images makes the service function throw an error with a
  descriptive message instead of returning, and the handler stores that message in
  \<open>error\<close> and leaves the current image as it was; a response whose first generated
  image carries image bytes makes the service function return that image as
  \<open>data:image/jpeg;base64,\<close> followed by the bytes.
\<close>

theorem zero_images_fail_first_image_returned:
  "(ai (generateInfluencerImage_request go) = Resolves r \<longrightarrow>
      (generatedImages r = None \<or> generatedImages r = Some [] \<longrightarrow>
         generateInfluencerImage ai go = Inl (Error
           ''Failed to generate influencer image: Image generation failed, no images were returned.''))
      \<and> (generatedImages r = Some (g # rest) \<and> image_of g = Some (Image (Some bytes))
          \<longrightarrow>
         generateInfluencerImage ai go
           = Inr (''data:image/jpeg;base64,'' @ bytes)))
   \<and> (ai (inpaintImage_request io) = Resolves r \<longrightarrow>
      (generatedImages r = None \<or> generatedImages r = Some [] \<longrightarrow>
         inpaintImage ai io = Inl (Error
           ''Failed to inpaint image: Inpainting failed, no images were returned.''))
      \<and> (generatedImages r = Some (g # rest) \<and> image_of g = Some (Image (Some bytes))
          \<longrightarrow>
         inpaintImage ai io = Inr (''data:image/jpeg;base64,'' @ bytes)))
   \<and> (ai (generateConsistentCharacter_request co) = Resolves r \<longrightarrow>
      (generatedImages r = None \<or> generatedImages r = Some [] \<longrightarrow>
         generateConsistentCharacter ai co = Inl (Error
           ''Failed to generate consistent character: Consistent character generation failed, no images were returned.''))
      \<and> (generatedImages r = Some (g # rest) \<and> image_of g = Some (Image (Some bytes))
          \<longrightarrow>
         generateConsistentCharacter ai co
           = Inr (''data:image/jpeg;base64,'' @ bytes)))
   \<and> (ai (addTextToImage_request ao) = Resolves r \<longrightarrow>
      (generatedImages r = None \<or> generatedImages r = Some [] \<longrightarrow>
         addTextToImage ai ao = Inl (Error
           ''Failed to add text to image: Adding text failed, no images were returned.''))
      \<and> (generatedImages r = Some (g # rest) \<and> image_of g = Some (Image (Some bytes))
          \<longrightarrow>
         addTextToImage ai ao = Inr (''data:image/jpeg;base64,'' @ bytes)))
   \<and> (handleGenerate_start s = Some (go', s1)
        \<and> generateImages ev (generateInfluencerImage_request go') = Resolves r
        \<and> (generatedImages r = None \<or> generatedImages r = Some []) \<longrightarrow>
      error (handleGenerate ev s) = Some
        ''Failed to generate influencer image: Image generation failed, no images were returned.''
      \<and> imageUrl (handleGenerate ev s) = imageUrl s)
   \<and> (handleApplyInpaint_start ev s = Some (io', s2)
        \<and> generateImages ev (inpaintImage_request io') = Resolves r
        \<and> (generatedImages r = None \<or> generatedImages r = Some []) \<longrightarrow>
      error (handleApplyInpaint ev s) = Some
        ''Failed to inpaint image: Inpainting failed, no images were returned.''
      \<and> imageUrl (handleApplyInpaint ev s) = imageUrl s)
   \<and> (handleGenerateNewScene_start s = Some (co', s3)
        \<and> generateImages ev (generateConsistentCharacter_request co') = Resolves r
        \<and> (generatedImages r = None \<or> generatedImages r = Some []) \<longrightarrow>
      error (handleGenerateNewScene ev s) = Some
        ''Failed to generate consistent character: Consistent character generation failed, no images were returned.''
      \<and> imageUrl (handleGenerateNewScene ev s) = imageUrl s)
   \<and> (handleApplyText_start s = Some (ao', s4)
        \<and> generateImages ev (addTextToImage_request ao') = Resolves r
        \<and> (generatedImages r = None \<or> generatedImages r = Some []) \<longrightarrow>
      error (handleApplyText ev s) = Some
        ''Failed to add text to image: Adding text failed, no images were returned.''
      \<and> imageUrl (handleApplyText ev s) = imageUrl s)"
proof (intro conjI impI)
  show "generateInfluencerImage ai go = Inl (Error
      ''Failed to generate influencer image: Image generation failed, no images were returned.'')"
    if "ai (generateInfluencerImage_request go) = Resolves r"
      "generatedImages r = None \<or> generatedImages r = Some []"
    using that by (rule generateInfluencerImage_zero_images)
  show "generateInfluencerImage ai go = Inr (''data:image/jpeg;base64,'' @ bytes)"
    if "ai (generateInfluencerImage_request go) = Resolves r"
      "generatedImages r = Some (g # rest) \<and> image_of g = Some (Image (Some bytes))"
    using that generateInfluencerImage_first_image [of ai go r g rest "Image (Some bytes)"]
    by (simp add: template_text_def)
  show "inpaintImage ai io = Inl (Error
      ''Failed to inpaint image: Inpainting failed, no images were returned.'')"
    if "ai (inpaintImage_request io) = Resolves r"
      "generatedImages r = None \<or> generatedImages r = Some []"
    using that by (rule inpaintImage_zero_images)
  show "inpaintImage ai io = Inr (''data:image/jpeg;base64,'' @ bytes)"
    if "ai (inpaintImage_request io) = Resolves r"
      "generatedImages r = Some (g # rest) \<and> image_of g = Some (Image (Some bytes))"
    using that inpaintImage_first_image [of ai io r g rest "Image (Some bytes)"]
    by (simp add: template_text_def)
  show "generateConsistentCharacter ai co = Inl (Error
      ''Failed to generate consistent character: Consistent character generation failed, no images were returned.'')"
    if "ai (generateConsistentCharacter_request co) = Resolves r"
      "generatedImages r = None \<or> generatedImages r = Some []"
    using that by (rule generateConsistentCharacter_zero_images)
  show "generateConsistentCharacter ai co = Inr (''data:image/jpeg;base64,'' @ bytes)"
    if "ai (generateConsistentCharacter_request co) = Resolves r"
      "generatedImages r = Some (g # rest) \<and> image_of g = Some (Image (Some bytes))"
    using that generateConsistentCharacter_first_image [of ai co r g rest "Image (Some bytes)"]
    by (simp add: template_text_def)
  show "addTextToImage ai ao = Inl (Error
      ''Failed to add text to image: Adding text failed, no images were returned.'')"
    if "ai (addTextToImage_request ao) = Resolves r"
      "generatedImages r = None \<or> generatedImages r = Some []"
    using that by (rule addTextToImage_zero_images)
  show "addTextToImage ai ao = Inr (''data:image/jpeg;base64,'' @ bytes)"
    if "ai (addTextToImage_request ao) = Resolves r"
      "generatedImages r = Some (g # rest) \<and> image_of g = Some (Image (Some bytes))"
    using that addTextToImage_first_image [of ai ao r g rest "Image (Some bytes)"]
    by (simp add: template_text_def)
next
  assume "handleGenerate_start s = Some (go', s1)
        \<and> generateImages ev (generateInfluencerImage_request go') = Resolves r
        \<and> (generatedImages r = None \<or> generatedImages r = Some [])"
  then have h: "error (handleGenerate ev s) = Some
      ''Failed to generate influencer image: Image generation failed, no images were returned.''
    \<and> imageUrl (handleGenerate ev s) = imageUrl s"
    using handleGenerate_zero_images [of s go' s1 ev r] by blast
  from h show "error (handleGenerate ev s) = Some
      ''Failed to generate influencer image: Image generation failed, no images were returned.''" ..
  from h show "imageUrl (handleGenerate ev s) = imageUrl s" ..
next
  assume "handleApplyInpaint_start ev s = Some (io', s2)
        \<and> generateImages ev (inpaintImage_request io') = Resolves r
        \<and> (generatedImages r = None \<or> generatedImages r = Some [])"
  then have h: "error (handleApplyInpaint ev s) = Some
      ''Failed to inpaint image: Inpainting failed, no images were returned.''
    \<and> imageUrl (handleApplyInpaint ev s) = imageUrl s"
    using handleApplyInpaint_zero_images [of ev s io' s2 r] by blast
  from h show "error (handleApplyInpaint ev s) = Some
      ''Failed to inpaint image: Inpainting failed, no images were returned.''" ..
  from h show "imageUrl (handleApplyInpaint ev s) = imageUrl s" ..
next
  assume "handleGenerateNewScene_start s = Some (co', s3)
        \<and> generateImages ev (generateConsistentCharacter_request co') = Resolves r
        \<and> (generatedImages r = None \<or> generatedImages r = Some [])"
  then have h: "error (handleGenerateNewScene ev s) = Some
      ''Failed to generate consistent character: Consistent character generation failed, no images were returned.''
    \<and> imageUrl (handleGenerateNewScene ev s) = imageUrl s"
    using handleGenerateNewScene_zero_images [of s co' s3 ev r] by blast
  from h show "error (handleGenerateNewScene ev s) = Some
      ''Failed to generate consistent character: Consistent character generation failed, no images were returned.''" ..
  from h show "imageUrl (handleGenerateNewScene ev s) = imageUrl s" ..
next
  assume "handleApplyText_start s = Some (ao', s4)
        \<and> generateImages ev (addTextToImage_request ao') = Resolves r
        \<and> (generatedImages r = None \<or> generatedImages r = Some [])"
  then have h: "error (handleApplyText ev s) = Some
      ''Failed to add text to image: Adding text failed, no images were returned.''
    \<and> imageUrl (handleApplyText ev s) = imageUrl s"
    using handleApplyText_zero_images [of s ao' s4 ev r] by blast
  from h show "error (handleApplyText ev s) = Some
      ''Failed to add text to image: Adding text failed, no images were returned.''" ..
  from h show "imageUrl (handleApplyText ev s) = imageUrl s" ..
qed


theorem zero_images_fail_first_image_returned_witness:
  "generateInfluencerImage (generateImages env_no_image) scenario_options = Inl (Error
      ''Failed to generate influencer image: Image generation failed, no images were returned.'')
   \<and> inpaintImage (generateImages env_no_image) inpaint_options = Inl (Error
      ''Failed to inpaint image: Inpainting failed, no images were returned.'')
   \<and> generateConsistentCharacter (generateImages env_no_image) scene_options = Inl (Error
      ''Failed to generate consistent character: Consistent character generation failed, no images were returned.'')
   \<and> addTextToImage (generateImages env_no_image) text_options = Inl (Error
      ''Failed to add text to image: Adding text failed, no images were returned.'')
   \<and> generateInfluencerImage (generateImages env_one_image) scenario_options
       = Inr ''data:image/jpeg;base64,TkVX''
   \<and> inpaintImage (generateImages env_one_image) inpaint_options
       = Inr ''data:image/jpeg;base64,TkVX''
   \<and> generateConsistentCharacter (generateImages env_one_image) scene_options
       = Inr ''data:image/jpeg;base64,TkVX''
   \<and> addTextToImage (generateImages env_one_image) text_options
       = Inr ''data:image/jpeg;base64,TkVX''
   \<and> error (handleGenerate env_no_image editing_state) = Some
      ''Failed to generate influencer image: Image generation failed, no images were returned.''
   \<and> imageUrl (handleGenerate env_no_image editing_state) = imageUrl editing_state
   \<and> error (handleApplyInpaint env_no_image editing_state) = Some
      ''Failed to inpaint image: Inpainting failed, no images were returned.''
   \<and> imageUrl (handleApplyInpaint env_no_image editing_state) = imageUrl editing_state
   \<and> error (handleGenerateNewScene env_no_image editing_state) = Some
      ''Failed to generate consistent character: Consistent character generation failed, no images were returned.''
   \<and> imageUrl (handleGenerateNewScene env_no_image editing_state) = imageUrl editing_state
   \<and> error (handleApplyText env_no_image editing_state) = Some
      ''Failed to add text to image: Adding text failed, no images were returned.''
   \<and> imageUrl (handleApplyText env_no_image editing_state) = imageUrl editing_state"
proof -
  let ?r0 = "\<lparr> generatedImages = Some [] \<rparr>"
  let ?g = "GeneratedImage (Some (Image (Some ''TkVX'')))"
  let ?r1 = "\<lparr> generatedImages = Some [?g] \<rparr>"
  have r0: "generateImages env_no_image request = Resolves ?r0" for request
    by (simp add: env_no_image_def)
  have z: "generatedImages ?r0 = None \<or> generatedImages ?r0 = Some []"
    by simp
  have r1: "generateImages env_one_image request = Resolves ?r1" for request
    by (simp add: env_one_image_def)
  have f: "generatedImages ?r1 = Some (?g # []) \<and> image_of ?g = Some (Image (Some ''TkVX''))"
    by simp
  have bytes: "''data:image/jpeg;base64,'' @ ''TkVX'' = ''data:image/jpeg;base64,TkVX''"
    by simp
  obtain go' s1 io' s2 co' s3 ao' s4 where starts:
    "handleGenerate_start editing_state = Some (go', s1)"
    "handleApplyInpaint_start env_no_image editing_state = Some (io', s2)"
    "handleGenerateNewScene_start editing_state = Some (co', s3)"
    "handleApplyText_start editing_state = Some (ao', s4)"
    using editing_starts by blast
  note none = zero_images_fail_first_image_returned [where ai = "generateImages env_no_image" and r = ?r0
      and go = scenario_options and io = inpaint_options and co = scene_options
      and ao = text_options and s = editing_state and ev = env_no_image
      and go' = go' and io' = io' and co' = co' and ao' = ao']
  note one = zero_images_fail_first_image_returned [where ai = "generateImages env_one_image" and r = ?r1
      and g = ?g and rest = "[]" and bytes = "''TkVX''"
      and go = scenario_options and io = inpaint_options and co = scene_options
      and ao = text_options, unfolded bytes]
  have n1: "generateInfluencerImage (generateImages env_no_image) scenario_options = Inl (Error
      ''Failed to generate influencer image: Image generation failed, no images were returned.'')"
    by (rule none [THEN conjunct1, THEN mp, OF r0, THEN conjunct1, THEN mp, OF z])
  have n2: "inpaintImage (generateImages env_no_image) inpaint_options = Inl (Error
      ''Failed to inpaint image: Inpainting failed, no images were returned.'')"
    by (rule none [THEN conjunct2, THEN conjunct1, THEN mp, OF r0, THEN conjunct1, THEN mp,
          OF z])
  have n3: "generateConsistentCharacter (generateImages env_no_image) scene_options = Inl (Error
      ''Failed to generate consistent character: Consistent character generation failed, no images were returned.'')"
    by (rule none [THEN conjunct2, THEN conjunct2, THEN conjunct1, THEN mp, OF r0,
          THEN conjunct1, THEN mp, OF z])
  have n4: "addTextToImage (generateImages env_no_image) text_options = Inl (Error
      ''Failed to add text to image: Adding text failed, no images were returned.'')"
    by (rule none [THEN conjunct2, THEN conjunct2, THEN conjunct2, THEN conjunct1, THEN mp,
          OF r0, THEN conjunct1, THEN mp, OF z])
  have o1: "generateInfluencerImage (generateImages env_one_image) scenario_options
       = Inr ''data:image/jpeg;base64,TkVX''"
    by (rule one [THEN conjunct1, THEN mp, OF r1, THEN conjunct2, THEN mp, OF f])
  have o2: "inpaintImage (generateImages env_one_image) inpaint_options
       = Inr ''data:image/jpeg;base64,TkVX''"
    by (rule one [THEN conjunct2, THEN conjunct1, THEN mp, OF r1, THEN conjunct2, THEN mp,
          OF f])
  have o3: "generateConsistentCharacter (generateImages env_one_image) scene_options
       = Inr ''data:image/jpeg;base64,TkVX''"
    by (rule one [THEN conjunct2, THEN conjunct2, THEN conjunct1, THEN mp, OF r1,
          THEN conjunct2, THEN mp, OF f])
  have o4: "addTextToImage (generateImages env_one_image) text_options
       = Inr ''data:image/jpeg;base64,TkVX''"
    by (rule one [THEN conjunct2, THEN conjunct2, THEN conjunct2, THEN conjunct1, THEN mp,
          OF r1, THEN conjunct2, THEN mp, OF f])
  note handlers = none [THEN conjunct2, THEN conjunct2, THEN conjunct2, THEN conjunct2]
  note h1 = handlers [THEN conjunct1, THEN mp, OF conjI [OF starts(1) conjI [OF r0 z]]]
  note h2 = handlers [THEN conjunct2, THEN conjunct1, THEN mp,
      OF conjI [OF starts(2) conjI [OF r0 z]]]
  note h3 = handlers [THEN conjunct2, THEN conjunct2, THEN conjunct1, THEN mp,
      OF conjI [OF starts(3) conjI [OF r0 z]]]
  note h4 = handlers [THEN conjunct2, THEN conjunct2, THEN conjunct2, THEN mp,
      OF conjI [OF starts(4) conjI [OF r0 z]]]
  show ?thesis
    by (intro conjI)
      (rule n1 n2 n3 n4 o1 o2 o3 o4 h1 [THEN conjunct1] h1 [THEN conjunct2]
        h2 [THEN conjunct1] h2 [THEN conjunct2] h3 [THEN conjunct1] h3 [THEN conjunct2]
        h4 [THEN conjunct1] h4 [THEN conjunct2])+
qed

section \<open>The mask after a successful operation\<close>

lemma start_loading:
  "handleGenerate_start s = Some (go, s1) \<Longrightarrow> isLoading s1 = True"
  "handleApplyInpaint_start ev s = Some (io, s2) \<Longrightarrow> isLoading s2 = True"
  "handleGenerateNewScene_start s = Some (co, s3) \<Longrightarrow> isLoading s3 = True"
  "handleApplyText_start s = Some (ao, s4) \<Longrightarrow> isLoading s4 = True"
  by (auto simp: handleGenerate_start_def handleApplyInpaint_start_def
      handleGenerateNewScene_start_def handleApplyText_start_def Let_def commit_cell
      split: option.splits if_splits)

lemma handleGenerate_success:
  assumes "handleGenerate_start s = Some (options, s1)"
    and "generateImages ev (generateInfluencerImage_request options) = Resolves r"
    and "generatedImages r = Some (g # rest)" and "image_of g = Some img"
  shows "imageUrl (handleGenerate ev s)
           = Some (''data:image/jpeg;base64,'' @ template_text (imageBytes_of img))
         \<and> mode (handleGenerate ev s) = Mode_edit
         \<and> mask_discarded (handleGenerate ev s)"
proof -
  let ?url = "''data:image/jpeg;base64,'' @ template_text (imageBytes_of img)"
  have res: "generateInfluencerImage (generateImages ev) options = Inr ?url"
    using generateInfluencerImage_first_image [of "generateImages ev" options r g rest img] assms(2-4)
    by blast
  have run: "handleGenerate ev s = handleGenerate_settle (Inr ?url) s1"
    by (simp add: handleGenerate_def assms(1) res)
  have loading: "isLoading s1 = True"
    using assms(1) by (rule start_loading)
  have discarded: "mask_discarded (handleGenerate ev s)"
    unfolding run handleGenerate_settle_def Let_def
    by (rule mask_discarded_commit [OF loading]) simp
  have fields: "imageUrl (handleGenerate ev s) = Some ?url
      \<and> mode (handleGenerate ev s) = Mode_edit"
    unfolding run
    by (simp add: handleGenerate_settle_def commit_cell clearCanvas_cell)
  show ?thesis
    using fields discarded by simp
qed

lemma handleApplyInpaint_success:
  assumes "handleApplyInpaint_start ev s = Some (options, s1)"
    and "generateImages ev (inpaintImage_request options) = Resolves r"
    and "generatedImages r = Some (g # rest)" and "image_of g = Some img"
  shows "imageUrl (handleApplyInpaint ev s)
           = Some (''data:image/jpeg;base64,'' @ template_text (imageBytes_of img))
         \<and> inpaintPrompt (handleApplyInpaint ev s) = []
         \<and> mask_discarded (handleApplyInpaint ev s)"
proof -
  let ?url = "''data:image/jpeg;base64,'' @ template_text (imageBytes_of img)"
  have res: "inpaintImage (generateImages ev) options = Inr ?url"
    using inpaintImage_first_image [of "generateImages ev" options r g rest img] assms(2-4)
    by blast
  have run: "handleApplyInpaint ev s = handleApplyInpaint_settle (Inr ?url) s1"
    by (simp add: handleApplyInpaint_def assms(1) res)
  have loading: "isLoading s1 = True"
    using assms(1) by (rule start_loading)
  have discarded: "mask_discarded (handleApplyInpaint ev s)"
    unfolding run handleApplyInpaint_settle_def Let_def
    by (rule mask_discarded_commit [OF loading]) simp
  have fields: "imageUrl (handleApplyInpaint ev s) = Some ?url
      \<and> inpaintPrompt (handleApplyInpaint ev s) = []"
    unfolding run
    by (simp add: handleApplyInpaint_settle_def commit_cell clearCanvas_cell)
  show ?thesis
    using fields discarded by simp
qed

lemma handleGenerateNewScene_success:
  assumes "handleGenerateNewScene_start s = Some (options, s1)"
    and "generateImages ev (generateConsistentCharacter_request options) = Resolves r"
    and "generatedImages r = Some (g # rest)" and "image_of g = Some img"
  shows "imageUrl (handleGenerateNewScene ev s)
           = Some (''data:image/jpeg;base64,'' @ template_text (imageBytes_of img))
         \<and> newScenePrompt (handleGenerateNewScene ev s) = []
         \<and> mask_discarded (handleGenerateNewScene ev s)"
proof -
  let ?url = "''data:image/jpeg;base64,'' @ template_text (imageBytes_of img)"
  have res: "generateConsistentCharacter (generateImages ev) options = Inr ?url"
    using generateConsistentCharacter_first_image [of "generateImages ev" options r g rest img] assms(2-4)
    by blast
  have run: "handleGenerateNewScene ev s = handleGenerateNewScene_settle (Inr ?url) s1"
    by (simp add: handleGenerateNewScene_def assms(1) res)
  have loading: "isLoading s1 = True"
    using assms(1) by (rule start_loading)
  have discarded: "mask_discarded (handleGenerateNewScene ev s)"
    unfolding run handleGenerateNewScene_settle_def Let_def
    by (rule mask_discarded_commit [OF loading]) simp
  have fields: "imageUrl (handleGenerateNewScene ev s) = Some ?url
      \<and> newScenePrompt (handleGenerateNewScene ev s) = []"
    unfolding run
    by (simp add: handleGenerateNewScene_settle_def commit_cell clearCanvas_cell)
  show ?thesis
    using fields discarded by simp
qed

lemma handleApplyText_success:
  assumes "handleApplyText_start s = Some (options, s1)"
    and "generateImages ev (addTextToImage_request options) = Resolves r"
    and "generatedImages r = Some (g # rest)" and "image_of g = Some img"
  shows "imageUrl (handleApplyText ev s)
           = Some (''data:image/jpeg;base64,'' @ template_text (imageBytes_of img))
         \<and> textContent (handleApplyText ev s) = []
         \<and> mask_discarded (handleApplyText ev s)"
proof -
  let ?url = "''data:image/jpeg;base64,'' @ template_text (imageBytes_of img)"
  have res: "addTextToImage (generateImages ev) options = Inr ?url"
    using addTextToImage_first_image [of "generateImages ev" options r g rest img] assms(2-4)
    by blast
  have run: "handleApplyText ev s = handleApplyText_settle (Inr ?url) s1"
    by (simp add: handleApplyText_def assms(1) res)
  have loading: "isLoading s1 = True"
    using assms(1) by (rule start_loading)
  have discarded: "mask_discarded (handleApplyText ev s)"
    unfolding run handleApplyText_settle_def Let_def
    by (rule mask_discarded_commit [OF loading]) simp
  have fields: "imageUrl (handleApplyText ev s) = Some ?url
      \<and> textContent (handleApplyText ev s) = []"
    unfolding run
    by (simp add: handleApplyText_settle_def commit_cell clearCanvas_cell)
  show ?thesis
    using fields discarded by simp
qed

text \<open>
  C2: for every state with a current image and a drawn mask, after a successful inpaint
  the image is replaced, the inpaint prompt is emptied and no mask is left; and whenever
  a successful operation, new-scene generation and text addition included, replaces the
  current image, no mask is left either: the canvas is not mounted or its raster is
  empty.
\<close>

theorem successful_operation_discards_mask:
  "(handleApplyInpaint_start ev s = Some (io, s2)
      \<and> generateImages ev (inpaintImage_request io) = Resolves r
      \<and> generatedImages r = Some (g # rest) \<and> image_of g = Some img \<longrightarrow>
        imageUrl (handleApplyInpaint ev s)
          = Some (''data:image/jpeg;base64,'' @ template_text (imageBytes_of img))
        \<and> inpaintPrompt (handleApplyInpaint ev s) = []
        \<and> mask_discarded (handleApplyInpaint ev s))
   \<and> (handleGenerateNewScene_start s = Some (co, s3)
      \<and> generateImages ev (generateConsistentCharacter_request co) = Resolves r
      \<and> generatedImages r = Some (g # rest) \<and> image_of g = Some img \<longrightarrow>
        imageUrl (handleGenerateNewScene ev s)
          = Some (''data:image/jpeg;base64,'' @ template_text (imageBytes_of img))
        \<and> newScenePrompt (handleGenerateNewScene ev s) = []
        \<and> mask_discarded (handleGenerateNewScene ev s))
   \<and> (handleApplyText_start s = Some (ao, s4)
      \<and> generateImages ev (addTextToImage_request ao) = Resolves r
      \<and> generatedImages r = Some (g # rest) \<and> image_of g = Some img \<longrightarrow>
        imageUrl (handleApplyText ev s)
          = Some (''data:image/jpeg;base64,'' @ template_text (imageBytes_of img))
        \<and> textContent (handleApplyText ev s) = []
        \<and> mask_discarded (handleApplyText ev s))
   \<and> (handleGenerate_start s = Some (go, s1)
      \<and> generateImages ev (generateInfluencerImage_request go) = Resolves r
      \<and> generatedImages r = Some (g # rest) \<and> image_of g = Some img \<longrightarrow>
        imageUrl (handleGenerate ev s)
          = Some (''data:image/jpeg;base64,'' @ template_text (imageBytes_of img))
        \<and> mode (handleGenerate ev s) = Mode_edit
        \<and> mask_discarded (handleGenerate ev s))"
  using handleApplyInpaint_success [of ev s io s2 r g rest img]
    handleGenerateNewScene_success [of s co s3 ev r g rest img]
    handleApplyText_success [of s ao s4 ev r g rest img]
    handleGenerate_success [of s go s1 ev r g rest img]
  by blast

theorem successful_operation_discards_mask_witness:
  "imageUrl editing_state = Some ''data:image/jpeg;base64,QUJD''
   \<and> canvasRef editing_state = Some mask_canvas \<and> \<not> empty_raster mask_canvas
   \<and> imageUrl (handleApplyInpaint env_one_image editing_state)
       = Some ''data:image/jpeg;base64,TkVX''
   \<and> inpaintPrompt (handleApplyInpaint env_one_image editing_state) = []
   \<and> mask_discarded (handleApplyInpaint env_one_image editing_state)
   \<and> imageUrl (handleGenerateNewScene env_one_image editing_state)
       = Some ''data:image/jpeg;base64,TkVX''
   \<and> mask_discarded (handleGenerateNewScene env_one_image editing_state)
   \<and> imageUrl (handleApplyText env_one_image editing_state)
       = Some ''data:image/jpeg;base64,TkVX''
   \<and> mask_discarded (handleApplyText env_one_image editing_state)
   \<and> imageUrl (handleGenerate env_one_image editing_state)
       = Some ''data:image/jpeg;base64,TkVX''
   \<and> mask_discarded (handleGenerate env_one_image editing_state)"
proof -
  let ?g = "GeneratedImage (Some (Image (Some ''TkVX'')))"
  let ?r1 = "\<lparr> generatedImages = Some [?g] \<rparr>"
  have before: "imageUrl editing_state = Some ''data:image/jpeg;base64,QUJD''"
    "canvasRef editing_state = Some mask_canvas"
    by (simp_all add: editing_state_def)
  have r1: "generateImages env_one_image request = Resolves ?r1" for request
    by (simp add: env_one_image_def)
  have f: "generatedImages ?r1 = Some (?g # [])" "image_of ?g = Some (Image (Some ''TkVX''))"
    by simp_all
  have url: "''data:image/jpeg;base64,'' @ template_text (imageBytes_of (Image (Some ''TkVX'')))
      = ''data:image/jpeg;base64,TkVX''"
    by (simp add: template_text_def)
  obtain go s1 io s2 co s3 ao s4 where starts:
    "handleGenerate_start editing_state = Some (go, s1)"
    "handleApplyInpaint_start env_one_image editing_state = Some (io, s2)"
    "handleGenerateNewScene_start editing_state = Some (co, s3)"
    "handleApplyText_start editing_state = Some (ao, s4)"
    using editing_starts by blast
  note inst = successful_operation_discards_mask [where s = editing_state
      and ev = env_one_image and r = ?r1 and g = ?g and rest = "[]"
      and img = "Image (Some ''TkVX'')" and io = io and co = co and ao = ao and go = go, unfolded url]
  show ?thesis
    using inst before r1 f starts mask_canvas_painted by blast
qed

end
